theory Spec2Isabelle
  imports Main "HOL-Library.Sublist" "HOL-Library.Char_ord" "HOL-Library.List_Lexorder"
begin

text \<open>
  A model of \<open>OAEITTL2SSSOM.py\<close>, which converts every Alignment API Turtle file of a
  directory to an SSSOM mapping set: discovery of the predicates and classes of a file by
  the suffix of their local names (\<open>local_name\<close>, \<open>find_predicates_and_classes\<close>), the
  conversion of one file (\<open>convert_alignment_file\<close>) and the batch driver (\<open>main\<close>).
  The definitions keep the names of the source. What the source takes from the graph
  library and from Python is modelled in the first sections and in the record
  \<open>runtime\<close>; the properties of the converter follow the model.
\<close>

section \<open>RDF terms, graphs and the queries the converter uses\<close>

text \<open>
  An RDF term of the graph library is a \<open>URIRef\<close>, a blank node or a literal; a literal
  carries its lexical form, an optional datatype IRI and an optional language tag.
  \<open>node_str\<close> is Python's \<open>str(term)\<close>: the IRI, the blank node identifier or the
  lexical form.
\<close>

datatype node =
    URIRef string
  | BNode string
  | Literal string "string option" "string option"

fun node_str :: "node \<Rightarrow> string" where
  "node_str (URIRef s) = s"
| "node_str (BNode s) = s"
| "node_str (Literal l d lg) = l"

fun is_URIRef :: "node \<Rightarrow> bool" where
  "is_URIRef (URIRef s) = True"
| "is_URIRef (BNode s) = False"
| "is_URIRef (Literal l d lg) = False"

fun is_Literal :: "node \<Rightarrow> bool" where
  "is_Literal (URIRef s) = False"
| "is_Literal (BNode s) = False"
| "is_Literal (Literal l d lg) = True"

type_synonym triple = "node \<times> node \<times> node"

text \<open>
  A graph is the list of its triples in the store's iteration order. \<open>Graph.add\<close> leaves
  a graph that already holds the triple unchanged, so a graph built by \<open>graph_add\<close> holds
  each triple once.
\<close>

type_synonym graph = "triple list"

definition graph_add :: "triple \<Rightarrow> graph \<Rightarrow> graph" where
  "graph_add t g = (if t \<in> set g then g else g @ [t])"

definition matches :: "node option \<Rightarrow> node \<Rightarrow> bool" where
  "matches pat x = (case pat of None \<Rightarrow> True | Some y \<Rightarrow> x = y)"

definition g_triples :: "graph \<Rightarrow> node option \<Rightarrow> node option \<Rightarrow> node option \<Rightarrow> triple list" where
  "g_triples g sp pp opat =
     filter (\<lambda>t. matches sp (fst t) \<and> matches pp (fst (snd t)) \<and> matches opat (snd (snd t))) g"

definition g_objects :: "graph \<Rightarrow> node option \<Rightarrow> node option \<Rightarrow> node list" where
  "g_objects g sp pp = map (\<lambda>t. snd (snd t)) (g_triples g sp pp None)"

text \<open>
  \<open>Graph.value(subject, predicate)\<close> with a subject: \<open>None\<close> when the predicate is
  \<open>None\<close>, otherwise the first object found, or \<open>None\<close> when there is none.
\<close>

definition g_value :: "graph \<Rightarrow> node \<Rightarrow> node option \<Rightarrow> node option" where
  "g_value g s pp =
     (if pp = None then None
      else case g_objects g (Some s) pp of [] \<Rightarrow> None | x # xs \<Rightarrow> Some x)"

section \<open>Vocabulary\<close>

definition RDF_type :: node where
  "RDF_type = URIRef ''http://www.w3.org/1999/02/22-rdf-syntax-ns#type''"

definition OWL_Ontology :: node where
  "OWL_Ontology = URIRef ''http://www.w3.org/2002/07/owl#Ontology''"

definition XSD_double :: string where
  "XSD_double = ''http://www.w3.org/2001/XMLSchema#double''"

definition SKOS :: "string \<Rightarrow> node" where
  "SKOS n = URIRef (''http://www.w3.org/2004/02/skos/core#'' @ n)"

definition SSSOM :: "string \<Rightarrow> node" where
  "SSSOM n = URIRef (''https://w3id.org/sssom/'' @ n)"

definition SEMAPV :: "string \<Rightarrow> node" where
  "SEMAPV n = URIRef (''https://w3id.org/semapv/vocab/'' @ n)"

section \<open>Strings\<close>

definition endswith :: "string \<Rightarrow> string \<Rightarrow> bool" where
  "endswith s suf = suffix suf s"

text \<open>\<open>s.rsplit(c, 1)[-1]\<close>: what follows the last \<open>c\<close>, or all of \<open>s\<close> without one.\<close>

definition after_last :: "char \<Rightarrow> string \<Rightarrow> string" where
  "after_last c s = rev (takeWhile (\<lambda>x. x \<noteq> c) (rev s))"

definition rstrip :: "char \<Rightarrow> string \<Rightarrow> string" where
  "rstrip c s = rev (dropWhile (\<lambda>x. x = c) (rev s))"

definition local_name :: "node \<Rightarrow> string" where
  "local_name uri =
     (let s = node_str uri
      in if CHR ''#'' \<in> set s then after_last (CHR ''#'') s
         else after_last (CHR ''/'') (rstrip (CHR ''/'') s))"

text \<open>Decimal digits of an integer, as \<open>str\<close> and f-strings print it.\<close>

function str_nat :: "nat \<Rightarrow> string" where
  "str_nat n =
     (if n < 10 then [''0123456789'' ! n]
      else str_nat (n div 10) @ [''0123456789'' ! (n mod 10)])"
  by pat_completeness auto
termination
  by (relation "measure (\<lambda>n. n)") auto

declare str_nat.simps [simp del]

definition str_int :: "int \<Rightarrow> string" where
  "str_int i = (if i < 0 then ''-'' @ str_nat (nat (- i)) else str_nat (nat i))"

text \<open>
  \<open>Path.stem\<close>: the final component without its last suffix; a name whose only dot is
  its first or its last character has no suffix.
\<close>

definition rfind :: "char \<Rightarrow> string \<Rightarrow> int" where
  "rfind c s =
     (if c \<in> set s then int (length s) - 1 - int (length (takeWhile (\<lambda>x. x \<noteq> c) (rev s)))
      else - 1)"

definition path_stem :: "string \<Rightarrow> string" where
  "path_stem name =
     (let i = rfind (CHR ''.'') name
      in if 0 < i \<and> i < int (length name) - 1 then take (nat i) name else name)"

section \<open>Predicate and class discovery\<close>

record roles =
  onto1_pred :: "node option"
  onto2_pred :: "node option"
  map_pred :: "node option"
  entity1_pred :: "node option"
  entity2_pred :: "node option"
  measure_pred :: "node option"
  relation_pred :: "node option"
  cid_pred :: "node option"
  alignment_class :: "node option"
  cell_class :: "node option"

definition no_roles :: roles where
  "no_roles = \<lparr>onto1_pred = None, onto2_pred = None, map_pred = None, entity1_pred = None,
     entity2_pred = None, measure_pred = None, relation_pred = None, cid_pred = None,
     alignment_class = None, cell_class = None\<rparr>"

definition scan_predicate :: "node \<Rightarrow> roles \<Rightarrow> roles" where
  "scan_predicate p r =
     (let lname_p = local_name p
      in if endswith lname_p ''onto1'' then r\<lparr>onto1_pred := Some p\<rparr>
         else if endswith lname_p ''onto2'' then r\<lparr>onto2_pred := Some p\<rparr>
         else if endswith lname_p ''map'' then r\<lparr>map_pred := Some p\<rparr>
         else if endswith lname_p ''entity1'' then r\<lparr>entity1_pred := Some p\<rparr>
         else if endswith lname_p ''entity2'' then r\<lparr>entity2_pred := Some p\<rparr>
         else if endswith lname_p ''measure'' then r\<lparr>measure_pred := Some p\<rparr>
         else if endswith lname_p ''relation'' then r\<lparr>relation_pred := Some p\<rparr>
         else if endswith lname_p ''cid'' then r\<lparr>cid_pred := Some p\<rparr>
         else r)"

definition scan_class :: "node \<Rightarrow> node \<Rightarrow> roles \<Rightarrow> roles" where
  "scan_class p ob r =
     (if p = RDF_type \<and> is_URIRef ob then
        (let lname_o = local_name ob
         in if endswith lname_o ''Alignment'' then r\<lparr>alignment_class := Some ob\<rparr>
            else if endswith lname_o ''Cell'' then r\<lparr>cell_class := Some ob\<rparr>
            else r)
      else r)"

text \<open>The body of the loop over all triples.\<close>

definition scan_triple :: "triple \<Rightarrow> roles \<Rightarrow> roles" where
  "scan_triple t r = scan_class (fst (snd t)) (snd (snd t)) (scan_predicate (fst (snd t)) r)"

definition discover :: "graph \<Rightarrow> roles" where
  "discover g = fold scan_triple g no_roles"

text \<open>The dictionary returned, with its string keys.\<close>

type_synonym preds_dict = "(string \<times> node option) list"

definition find_predicates_and_classes :: "graph \<Rightarrow> preds_dict" where
  "find_predicates_and_classes g =
     (let r = discover g
      in [(''onto1'', onto1_pred r), (''onto2'', onto2_pred r), (''map'', map_pred r),
          (''entity1'', entity1_pred r), (''entity2'', entity2_pred r),
          (''measure'', measure_pred r), (''relation'', relation_pred r),
          (''cid'', cid_pred r), (''Alignment'', alignment_class r), (''Cell'', cell_class r)])"

text \<open>
  \<open>preds.get(k)\<close>: the value stored, which may be \<open>None\<close>, and \<open>None\<close> for an absent
  key. \<open>preds[k]\<close> is only applied to keys of the dictionary literal, where it agrees.
\<close>

definition dict_get :: "preds_dict \<Rightarrow> string \<Rightarrow> node option" where
  "dict_get d k = (case map_of d k of None \<Rightarrow> None | Some v \<Rightarrow> v)"

section \<open>What the converter takes from the Python runtime and the graph library\<close>

text \<open>
  The built-in \<open>hash\<close> of the pair \<open>(subj, obj)\<close>, the built-in \<open>float\<close> applied to a
  string (\<open>None\<close> where it raises \<open>ValueError\<close>), the lexical form the graph library gives
  a float stored as a literal, the truth value of a literal, and whether creating the
  parent directory and serialising a graph to a destination succeed are not code of this
  repository; the model takes them as parameters. The serialiser of the graph library
  refuses a graph with an IRI that holds a character it does not allow, a blank for one;
  the IRIs of the output graph are built from the stem of the file name and from the cids
  of the input, so the call can fail on graphs the converter builds.
\<close>

record 'f runtime =
  py_hash :: "node \<times> node \<Rightarrow> int"
  py_float :: "string \<Rightarrow> 'f option"
  double_lexical :: "'f \<Rightarrow> string"
  literal_bool :: "node \<Rightarrow> bool"
  can_serialize :: "string \<Rightarrow> graph \<Rightarrow> bool"

text \<open>Truth value of a term: URIRef and BNode are strings, false exactly when empty.\<close>

definition truthy :: "'f runtime \<Rightarrow> node \<Rightarrow> bool" where
  "truthy rt n = (if is_Literal n then literal_bool rt n else node_str n \<noteq> [])"

section \<open>Console, file system and exceptions\<close>

text \<open>
  The lines printed, by kind and content. An input file is named in them by its name in
  the input directory, where the first line of the source prints the whole path.
\<close>

datatype message =
    Processing string string
  | WarnMissing string "string list"
  | WarnNoAlignment string
  | WroteOK string

datatype exn = TurtleParseError | SerializeError | SystemExit string

record world =
  console :: "message list"
  written :: "(string \<times> graph) list"

definition print_msg :: "message \<Rightarrow> world \<Rightarrow> world" where
  "print_msg m w = w\<lparr>console := console w @ [m]\<rparr>"

text \<open>
  \<open>written\<close> lists the output files written in full, each with its graph. The two lines
  that create the parent directory and serialise the graph either succeed, and the file
  is written, or raise; a call that raises adds no file written in full, and what it
  leaves at the destination is not part of the model.
\<close>

definition serialize :: "'f runtime \<Rightarrow> string \<Rightarrow> graph \<Rightarrow> world \<Rightarrow> exn option \<times> world" where
  "serialize rt path g w =
     (if can_serialize rt path g then (None, w\<lparr>written := written w @ [(path, g)]\<rparr>)
      else (Some SerializeError, w))"

text \<open>
  An input file: its name in the input directory and what the Turtle parser makes of its
  text, \<open>None\<close> when the text is not valid Turtle and \<open>Graph.parse\<close> raises.
\<close>

record ttl_file =
  fname :: string
  turtle :: "triple list option"

section \<open>Conversion of one alignment file\<close>

definition required_keys :: "string list" where
  "required_keys = [''onto1'', ''onto2'', ''map'', ''entity1'', ''entity2'', ''measure'',
     ''relation'', ''Alignment'']"

text \<open>
  \<open>cid_str\<close>: the lexical form of a literal cid; for any other value
  \<open>(cid_val and str(cid_val)) or ""\<close>.
\<close>

definition cid_str_of :: "node option \<Rightarrow> string" where
  "cid_str_of cid_val =
     (case cid_val of
        None \<Rightarrow> []
      | Some c \<Rightarrow>
          if is_Literal c then node_str c
          else if node_str c \<noteq> [] then node_str c else [])"

definition mapping_node_of :: "'f runtime \<Rightarrow> string \<Rightarrow> string \<Rightarrow> node \<Rightarrow> node \<Rightarrow> node" where
  "mapping_node_of rt mapping_set_iri cid_str subj ob =
     (if cid_str \<noteq> [] then URIRef (mapping_set_iri @ ''#m'' @ cid_str)
      else URIRef (mapping_set_iri @ ''#m'' @ str_int (abs (py_hash rt (subj, ob)))))"

definition pred_uri_of :: "node option \<Rightarrow> node" where
  "pred_uri_of rel =
     (case rel of
        None \<Rightarrow> SKOS ''relatedMatch''
      | Some r \<Rightarrow>
          if is_Literal r \<and> node_str r = ''='' then SKOS ''exactMatch''
          else SKOS ''relatedMatch'')"

definition confidence_adds :: "'f runtime \<Rightarrow> node \<Rightarrow> node option \<Rightarrow> triple list" where
  "confidence_adds rt mapping_node measure_val =
     (case measure_val of
        None \<Rightarrow> []
      | Some m \<Rightarrow>
          (case py_float rt (node_str m) of
             Some conf_val \<Rightarrow>
               [(mapping_node, SSSOM ''confidence'',
                 Literal (double_lexical rt conf_val) (Some XSD_double) None)]
           | None \<Rightarrow> []))"

text \<open>
  The triples one complete cell passes to \<open>g_out.add\<close>, in the order of the loop body.
\<close>

definition cell_adds ::
  "'f runtime \<Rightarrow> string \<Rightarrow> node option \<Rightarrow> node \<Rightarrow> node \<Rightarrow> node option \<Rightarrow> node option \<Rightarrow> triple list" where
  "cell_adds rt mapping_set_iri cid_val subj ob measure_val rel =
     (let cid_str = cid_str_of cid_val;
          mapping_node = mapping_node_of rt mapping_set_iri cid_str subj ob
      in [(mapping_node, RDF_type, SSSOM ''Mapping'')]
         @ (if cid_str \<noteq> [] then [(mapping_node, SSSOM ''record_id'', Literal cid_str None None)]
            else [])
         @ [(mapping_node, SSSOM ''subject_id'', subj),
            (mapping_node, SSSOM ''predicate_id'', pred_uri_of rel),
            (mapping_node, SSSOM ''object_id'', ob)]
         @ confidence_adds rt mapping_node measure_val
         @ [(mapping_node, SSSOM ''mapping_justification'', SEMAPV ''UnspecifiedMatching'')])"

record conv_state =
  g_out :: graph
  all_mapping_nodes :: "node list"
  subj_source :: "node option"
  obj_source :: "node option"

text \<open>
  The body of the loop over the cells of an alignment, in two steps. \<open>cell_emit\<close> reads
  the five values of the cell and gives \<open>None\<close> where the body leaves by \<open>continue\<close>,
  otherwise the mapping node and the triples to add; \<open>process_cell\<close> appends the node to
  \<open>all_mapping_nodes\<close> and adds the triples to \<open>g_out\<close>.
\<close>

definition cell_emit ::
  "'f runtime \<Rightarrow> graph \<Rightarrow> preds_dict \<Rightarrow> string \<Rightarrow> node \<Rightarrow> (node \<times> triple list) option" where
  "cell_emit rt g_in preds mapping_set_iri cell =
     (let cid_val = (if dict_get preds ''cid'' \<noteq> None then g_value g_in cell (dict_get preds ''cid'')
                     else None);
          subj = g_value g_in cell (dict_get preds ''entity1'');
          obj = g_value g_in cell (dict_get preds ''entity2'');
          measure_val = g_value g_in cell (dict_get preds ''measure'');
          rel = g_value g_in cell (dict_get preds ''relation'')
      in case subj of
           None \<Rightarrow> None
         | Some sv \<Rightarrow>
            (case obj of
               None \<Rightarrow> None
             | Some ov \<Rightarrow>
                 Some (mapping_node_of rt mapping_set_iri (cid_str_of cid_val) sv ov,
                       cell_adds rt mapping_set_iri cid_val sv ov measure_val rel)))"

definition process_cell ::
  "'f runtime \<Rightarrow> graph \<Rightarrow> preds_dict \<Rightarrow> string \<Rightarrow> node \<Rightarrow> conv_state \<Rightarrow> conv_state" where
  "process_cell rt g_in preds mapping_set_iri cell st =
     (case cell_emit rt g_in preds mapping_set_iri cell of
        None \<Rightarrow> st
      | Some (mapping_node, adds) \<Rightarrow>
          st\<lparr>all_mapping_nodes := all_mapping_nodes st @ [mapping_node],
             g_out := fold graph_add adds (g_out st)\<rparr>)"

text \<open>The body of the loop over the alignments.\<close>

definition process_alignment ::
  "'f runtime \<Rightarrow> graph \<Rightarrow> preds_dict \<Rightarrow> string \<Rightarrow> node \<Rightarrow> conv_state \<Rightarrow> conv_state" where
  "process_alignment rt g_in preds mapping_set_iri aln st =
     (let s1 = g_value g_in aln (dict_get preds ''onto1'');
          s2 = g_value g_in aln (dict_get preds ''onto2'');
          st1 = (case s1 of
                   Some v \<Rightarrow> if truthy rt v \<and> subj_source st = None
                              then st\<lparr>subj_source := s1\<rparr> else st
                 | None \<Rightarrow> st);
          st2 = (case s2 of
                   Some v \<Rightarrow> if truthy rt v \<and> obj_source st1 = None
                              then st1\<lparr>obj_source := s2\<rparr> else st1
                 | None \<Rightarrow> st1)
      in fold (process_cell rt g_in preds mapping_set_iri)
           (g_objects g_in (Some aln) (dict_get preds ''map'')) st2)"

text \<open>
  The pieces of the converter after parsing, in the order of the source: the set of
  alignments, the mapping set IRI, the fresh output graph with the two type triples of the
  mapping set, the two nested loops, and the links added after the loops. Iterating a
  Python set has no specified order; the model visits the alignments, and the distinct
  mapping nodes, in order of first occurrence. Binding the prefixes changes the
  serialisation only. An exception of the two lines that write the file leaves the
  function before the last line is printed.
\<close>

definition alignments_of :: "graph \<Rightarrow> preds_dict \<Rightarrow> node list" where
  "alignments_of g_in preds =
     remdups (map fst (g_triples g_in None (Some RDF_type) (dict_get preds ''Alignment'')))"

definition mapping_set_iri_of :: "string \<Rightarrow> string" where
  "mapping_set_iri_of in_name = ''http://example.org/mappings/'' @ path_stem in_name"

definition new_output :: "string \<Rightarrow> conv_state" where
  "new_output mapping_set_iri =
     \<lparr>g_out = fold graph_add
                [(URIRef mapping_set_iri, RDF_type, OWL_Ontology),
                 (URIRef mapping_set_iri, RDF_type, SSSOM ''MappingSet'')] [],
      all_mapping_nodes = [], subj_source = None, obj_source = None\<rparr>"

definition run_loops ::
  "'f runtime \<Rightarrow> graph \<Rightarrow> preds_dict \<Rightarrow> string \<Rightarrow> node list \<Rightarrow> conv_state" where
  "run_loops rt g_in preds mapping_set_iri alignments =
     fold (process_alignment rt g_in preds mapping_set_iri) alignments
       (new_output mapping_set_iri)"

definition link_mapping_set :: "string \<Rightarrow> conv_state \<Rightarrow> graph" where
  "link_mapping_set mapping_set_iri st =
     (let g1 = (case subj_source st of
                  Some v \<Rightarrow> graph_add (URIRef mapping_set_iri, SSSOM ''subject_source'', v) (g_out st)
                | None \<Rightarrow> g_out st);
          g2 = (case obj_source st of
                  Some v \<Rightarrow> graph_add (URIRef mapping_set_iri, SSSOM ''object_source'', v) g1
                | None \<Rightarrow> g1)
      in fold (\<lambda>m. graph_add (URIRef mapping_set_iri, SSSOM ''mappings'', m))
           (remdups (all_mapping_nodes st)) g2)"

definition convert_graph ::
  "'f runtime \<Rightarrow> string \<Rightarrow> string \<Rightarrow> graph \<Rightarrow> world \<Rightarrow> exn option \<times> world" where
  "convert_graph rt in_name out_path g_in w =
     (let preds = find_predicates_and_classes g_in;
          missing = filter (\<lambda>k. dict_get preds k = None) required_keys
      in if missing \<noteq> [] then (None, print_msg (WarnMissing in_name missing) w)
         else
           (let alignments = alignments_of g_in preds
            in if alignments = [] then (None, print_msg (WarnNoAlignment in_name) w)
               else
                 (let mapping_set_iri = mapping_set_iri_of in_name;
                      st = run_loops rt g_in preds mapping_set_iri alignments
                  in case serialize rt out_path (link_mapping_set mapping_set_iri st) w of
                       (Some e, w') \<Rightarrow> (Some e, w')
                     | (None, w') \<Rightarrow> (None, print_msg (WroteOK out_path) w'))))"

definition convert_alignment_file ::
  "'f runtime \<Rightarrow> ttl_file \<Rightarrow> string \<Rightarrow> world \<Rightarrow> exn option \<times> world" where
  "convert_alignment_file rt in_path out_path w =
     (let w1 = print_msg (Processing (fname in_path) out_path) w
      in case turtle in_path of
           None \<Rightarrow> (Some TurtleParseError, w1)
         | Some stmts \<Rightarrow> convert_graph rt (fname in_path) out_path (fold graph_add stmts []) w1)"

section \<open>Batch driver\<close>

text \<open>
  The loop of \<open>main\<close>: an exception raised by the conversion of a file leaves the loop and
  \<open>main\<close>; nothing in \<open>main\<close> catches it.
\<close>

fun main_loop :: "'f runtime \<Rightarrow> string \<Rightarrow> ttl_file list \<Rightarrow> world \<Rightarrow> exn option \<times> world" where
  "main_loop rt out_dir [] w = (None, w)"
| "main_loop rt out_dir (ttl_path # rest) w =
     (case convert_alignment_file rt ttl_path
             (out_dir @ ''/'' @ path_stem (fname ttl_path) @ ''_sssom.ttl'') w of
        (Some e, w') \<Rightarrow> (Some e, w')
      | (None, w') \<Rightarrow> main_loop rt out_dir rest w')"

text \<open>
  \<open>main\<close>: the input directory with its listing (\<open>None\<close> when the path is not a
  directory) and the \<open>--out-dir\<close> argument.
\<close>

definition main ::
  "'f runtime \<Rightarrow> string \<Rightarrow> ttl_file list option \<Rightarrow> string option \<Rightarrow> world \<Rightarrow> exn option \<times> world" where
  "main rt input_dir listing out_dir_arg w =
     (let out_dir = (case out_dir_arg of
                       Some d \<Rightarrow> if d \<noteq> [] then d else input_dir
                     | None \<Rightarrow> input_dir)
      in case listing of
           None \<Rightarrow> (Some (SystemExit input_dir), w)
         | Some entries \<Rightarrow>
             main_loop rt out_dir
               (sort_key fname (filter (\<lambda>f. endswith (fname f) ''.ttl'') entries)) w)"

section \<open>Notions used to state the properties\<close>

text \<open>
  The cells the two loops visit, in order, and what the loop body emits for those it does
  not skip.
\<close>

definition visited_cells :: "graph \<Rightarrow> preds_dict \<Rightarrow> node list \<Rightarrow> node list" where
  "visited_cells g_in preds alignments =
     concat (map (\<lambda>aln. g_objects g_in (Some aln) (dict_get preds ''map'')) alignments)"

definition emitted ::
  "'f runtime \<Rightarrow> graph \<Rightarrow> preds_dict \<Rightarrow> string \<Rightarrow> node list \<Rightarrow> (node \<times> triple list) list" where
  "emitted rt g_in preds msi alignments =
     List.map_filter (cell_emit rt g_in preds msi) (visited_cells g_in preds alignments)"

text \<open>
  A typing triple of a cell: an \<open>rdf:type\<close> triple whose object has a local name ending
  in \<open>Cell\<close>; and a graph without these triples.
\<close>

definition cell_typing :: "triple \<Rightarrow> bool" where
  "cell_typing t = (fst (snd t) = RDF_type \<and> endswith (local_name (snd (snd t))) ''Cell'')"

definition without_cell_typing :: "graph \<Rightarrow> graph" where
  "without_cell_typing g = filter (\<lambda>t. \<not> cell_typing t) g"

text \<open>
  Auxiliary notions of the proofs about discovery: the roles without the Cell class, no
  predicate role is \<open>rdf:type\<close>, and the Alignment class found comes from a typing
  triple of the graph.
\<close>

definition forget :: "roles \<Rightarrow> roles" where
  "forget r = r\<lparr>cell_class := None\<rparr>"

definition preds_not_type :: "roles \<Rightarrow> bool" where
  "preds_not_type r =
     (onto1_pred r \<noteq> Some RDF_type \<and> onto2_pred r \<noteq> Some RDF_type \<and> map_pred r \<noteq> Some RDF_type
      \<and> entity1_pred r \<noteq> Some RDF_type \<and> entity2_pred r \<noteq> Some RDF_type
      \<and> measure_pred r \<noteq> Some RDF_type \<and> relation_pred r \<noteq> Some RDF_type
      \<and> cid_pred r \<noteq> Some RDF_type)"

definition class_from :: "graph \<Rightarrow> roles \<Rightarrow> bool" where
  "class_from g r =
     (case alignment_class r of None \<Rightarrow> True
      | Some c \<Rightarrow> endswith (local_name c) ''Alignment'' \<and> (\<exists>s. (s, RDF_type, c) \<in> set g))"

text \<open>
  The eight roles that \<open>required_keys\<close> names, each with the value discovery found for
  it, and the names of those left unresolved, in that order.
\<close>

definition required_roles :: "roles \<Rightarrow> (string \<times> node option) list" where
  "required_roles r =
     [(''onto1'', onto1_pred r), (''onto2'', onto2_pred r), (''map'', map_pred r),
      (''entity1'', entity1_pred r), (''entity2'', entity2_pred r),
      (''measure'', measure_pred r), (''relation'', relation_pred r),
      (''Alignment'', alignment_class r)]"

definition unresolved_roles :: "roles \<Rightarrow> string list" where
  "unresolved_roles r = map fst (filter (\<lambda>kv. snd kv = None) (required_roles r))"

text \<open>
  The graph that the conversion of the input graph \<open>g_in\<close>, read from the file named
  \<open>in_name\<close>, hands to the serialiser.
\<close>

definition output_graph :: "'f runtime \<Rightarrow> string \<Rightarrow> graph \<Rightarrow> graph" where
  "output_graph rt in_name g_in =
     link_mapping_set (mapping_set_iri_of in_name)
       (run_loops rt g_in (find_predicates_and_classes g_in) (mapping_set_iri_of in_name)
          (alignments_of g_in (find_predicates_and_classes g_in)))"

text \<open>
  The resources of a graph typed \<open>sssom:Mapping\<close>, and the complete cells of an input
  graph: the distinct cells visited that have both an entity1 and an entity2 value.
\<close>

definition mapping_resources :: "graph \<Rightarrow> node list" where
  "mapping_resources g =
     remdups (map fst (g_triples g None (Some RDF_type) (Some (SSSOM ''Mapping''))))"

definition complete_cells :: "graph \<Rightarrow> preds_dict \<Rightarrow> node list \<Rightarrow> node list" where
  "complete_cells g_in preds alignments =
     filter (\<lambda>c. g_value g_in c (dict_get preds ''entity1'') \<noteq> None
                \<and> g_value g_in c (dict_get preds ''entity2'') \<noteq> None)
       (remdups (visited_cells g_in preds alignments))"

section \<open>Sample inputs\<close>

text \<open>
  A runtime for running the model on concrete inputs: a hash of the pair computed from the
  lengths of the two strings (negative on the samples, so that \<open>abs\<close> matters), a
  \<open>float\<close> that accepts the string \<open>0.95\<close> only, literals that are true when not
  empty, and a serialiser that refuses the graphs with a blank in an IRI.
\<close>

definition sample_hash :: "node \<times> node \<Rightarrow> int" where
  "sample_hash pr = int (length (node_str (fst pr))) - 2 * int (length (node_str (snd pr)))"

definition sample_float :: "string \<Rightarrow> nat option" where
  "sample_float s = (if s = ''0.95'' then Some 95 else None)"

definition sample_lexical :: "nat \<Rightarrow> string" where
  "sample_lexical n = ''0.'' @ str_nat n"

definition sample_literal_bool :: "node \<Rightarrow> bool" where
  "sample_literal_bool n = (node_str n \<noteq> [])"

definition sample_iri_ok :: "node \<Rightarrow> bool" where
  "sample_iri_ok n = (if is_URIRef n then CHR '' '' \<notin> set (node_str n) else True)"

definition sample_can_serialize :: "string \<Rightarrow> graph \<Rightarrow> bool" where
  "sample_can_serialize path g =
     list_all (\<lambda>t. sample_iri_ok (fst t) \<and> sample_iri_ok (fst (snd t))
                 \<and> sample_iri_ok (snd (snd t))) g"

definition sample_rt :: "nat runtime" where
  "sample_rt = \<lparr>py_hash = sample_hash, py_float = sample_float,
     double_lexical = sample_lexical, literal_bool = sample_literal_bool,
     can_serialize = sample_can_serialize\<rparr>"

definition empty_world :: world where
  "empty_world = \<lparr>console = [], written = []\<rparr>"

text \<open>
  An alignment vocabulary in the namespace \<open>http://k/a#\<close>; the triples of an alignment
  \<open>al\<close> with its two ontologies; and the triples of a cell \<open>c\<close> of \<open>al\<close> from
  \<open><http://a/x>\<close> to \<open><http://b/y>\<close> with a measure \<open>m\<close> and a relation \<open>r\<close>.
\<close>

definition ns :: "string \<Rightarrow> node" where
  "ns n = URIRef (''http://k/a#'' @ n)"

definition ex_header :: "triple list" where
  "ex_header = [(ns ''al'', RDF_type, ns ''Alignment''),
     (ns ''al'', ns ''onto1'', URIRef ''http://a''),
     (ns ''al'', ns ''onto2'', URIRef ''http://b'')]"

definition ex_cell :: "string \<Rightarrow> string \<Rightarrow> string \<Rightarrow> triple list" where
  "ex_cell c m r = [(ns ''al'', ns ''map'', ns c),
     (ns c, ns ''entity1'', URIRef ''http://a/x''),
     (ns c, ns ''entity2'', URIRef ''http://b/y''),
     (ns c, ns ''measure'', Literal m None None),
     (ns c, ns ''relation'', Literal r None None)]"

text \<open>
  The sample graphs: one cell with relation \<open>=\<close> and measure \<open>0.95\<close>, no cid and no
  typing of the cell; the same with the cell typed as a Cell; with the cid \<open>1\<close>, whose
  predicate lives in another namespace; with an empty cid; with the cid \<open>a b\<close>, which
  puts a blank into the mapping IRI; one cell with a measure that
  is not a number and the relation \<open>near\<close>; one cell without measure and relation, so
  that these two roles are not found; and two cells with the same entities and no cid.
\<close>

definition ex_one :: graph where
  "ex_one = ex_header @ ex_cell ''c1'' ''0.95'' ''=''"

definition ex_typed :: graph where
  "ex_typed = ex_one @ [(ns ''c1'', RDF_type, ns ''Cell'')]"

definition ex_cid :: graph where
  "ex_cid = ex_one @ [(ns ''c1'', URIRef ''http://other/ns/cid'', Literal ''1'' None None)]"

definition ex_empty_cid :: graph where
  "ex_empty_cid = ex_one @ [(ns ''c1'', ns ''cid'', Literal [] None None)]"

definition ex_blank_cid :: graph where
  "ex_blank_cid = ex_one @ [(ns ''c1'', ns ''cid'', Literal ''a b'' None None)]"

definition ex_bad_measure :: graph where
  "ex_bad_measure = ex_header @ ex_cell ''c1'' ''not-a-number'' ''near''"

definition ex_no_measure :: graph where
  "ex_no_measure = ex_header @ [(ns ''al'', ns ''map'', ns ''c1''),
     (ns ''c1'', ns ''entity1'', URIRef ''http://a/x''),
     (ns ''c1'', ns ''entity2'', URIRef ''http://b/y'')]"

definition ex_twins :: graph where
  "ex_twins = ex_header @ ex_cell ''c1'' ''0.95'' ''='' @ ex_cell ''c2'' ''0.5'' ''<''"

text \<open>
  A file \<open>f.ttl\<close> holding a graph, a file \<open>my file.ttl\<close> holding a graph, whose stem
  puts a blank into the mapping set IRI, and for a sample graph read from \<open>f.ttl\<close>: the mapping set
  IRI, the dictionary of discovery, the alignments and the output graph.
\<close>

definition ex_file :: "graph \<Rightarrow> ttl_file" where
  "ex_file g = \<lparr>fname = ''f.ttl'', turtle = Some g\<rparr>"

definition ex_file_blank :: "graph \<Rightarrow> ttl_file" where
  "ex_file_blank g = \<lparr>fname = ''my file.ttl'', turtle = Some g\<rparr>"

definition ex_iri :: string where
  "ex_iri = mapping_set_iri_of ''f.ttl''"

definition ex_preds :: "graph \<Rightarrow> preds_dict" where
  "ex_preds g = find_predicates_and_classes g"

definition ex_alns :: "graph \<Rightarrow> node list" where
  "ex_alns g = alignments_of g (find_predicates_and_classes g)"

definition ex_out :: "graph \<Rightarrow> graph" where
  "ex_out g = link_mapping_set ex_iri (run_loops sample_rt g (ex_preds g) ex_iri (ex_alns g))"

text \<open>
  Two input directories with one valid and one malformed file: the malformed file first
  in the order of the names, and the valid file first.
\<close>

definition ex_dir :: "ttl_file list" where
  "ex_dir = [\<lparr>fname = ''b.ttl'', turtle = Some ex_one\<rparr>, \<lparr>fname = ''a.ttl'', turtle = None\<rparr>]"

definition ex_dir_valid_first :: "ttl_file list" where
  "ex_dir_valid_first =
     [\<lparr>fname = ''a.ttl'', turtle = Some ex_one\<rparr>, \<lparr>fname = ''b.ttl'', turtle = None\<rparr>]"

section \<open>Lemmas about the model\<close>

lemma set_fold_graph_add: "set (fold graph_add ts g) = set ts \<union> set g"
  by (induction ts arbitrary: g) (auto simp: graph_add_def)

lemma vocab_distinct:
  "SSSOM a = SSSOM b \<longleftrightarrow> a = b" "RDF_type \<noteq> SSSOM a" "SSSOM a \<noteq> RDF_type"
  "SKOS a = SKOS b \<longleftrightarrow> a = b"
  by (simp_all add: SSSOM_def RDF_type_def SKOS_def)

lemma dict_get_roles:
  "dict_get (find_predicates_and_classes g) ''onto1'' = onto1_pred (discover g)"
  "dict_get (find_predicates_and_classes g) ''onto2'' = onto2_pred (discover g)"
  "dict_get (find_predicates_and_classes g) ''map'' = map_pred (discover g)"
  "dict_get (find_predicates_and_classes g) ''entity1'' = entity1_pred (discover g)"
  "dict_get (find_predicates_and_classes g) ''entity2'' = entity2_pred (discover g)"
  "dict_get (find_predicates_and_classes g) ''measure'' = measure_pred (discover g)"
  "dict_get (find_predicates_and_classes g) ''relation'' = relation_pred (discover g)"
  "dict_get (find_predicates_and_classes g) ''cid'' = cid_pred (discover g)"
  "dict_get (find_predicates_and_classes g) ''Alignment'' = alignment_class (discover g)"
  "dict_get (find_predicates_and_classes g) ''Cell'' = cell_class (discover g)"
  by (simp_all add: dict_get_def find_predicates_and_classes_def Let_def)

lemma pred_uri_of_eq:
  "pred_uri_of rel =
     (if (\<exists>d lg. rel = Some (Literal ''='' d lg)) then SKOS ''exactMatch''
      else SKOS ''relatedMatch'')"
proof (cases rel)
  case None
  then show ?thesis by (simp add: pred_uri_of_def)
next
  case (Some r)
  then show ?thesis by (cases r) (auto simp: pred_uri_of_def)
qed

lemma confidence_adds_pred:
  "t \<in> set (confidence_adds rt n m) \<Longrightarrow> fst (snd t) = SSSOM ''confidence''"
  by (auto simp: confidence_adds_def split: option.splits)

lemma filter_confidence_adds_other:
  "q \<noteq> ''confidence'' \<Longrightarrow> filter (\<lambda>t. fst (snd t) = SSSOM q) (confidence_adds rt n m) = []"
  by (auto simp: filter_empty_conv vocab_distinct dest!: confidence_adds_pred)

lemma cell_emit_SomeD:
  assumes "cell_emit rt g_in preds msi cell = Some (node, adds)"
  obtains sv ov where
    "g_value g_in cell (dict_get preds ''entity1'') = Some sv"
    "g_value g_in cell (dict_get preds ''entity2'') = Some ov"
    "node = mapping_node_of rt msi (cid_str_of (g_value g_in cell (dict_get preds ''cid''))) sv ov"
    "adds = cell_adds rt msi (g_value g_in cell (dict_get preds ''cid'')) sv ov
              (g_value g_in cell (dict_get preds ''measure''))
              (g_value g_in cell (dict_get preds ''relation''))"
proof -
  have c: "(if dict_get preds ''cid'' \<noteq> None then g_value g_in cell (dict_get preds ''cid'') else None)
           = g_value g_in cell (dict_get preds ''cid'')"
    by (simp add: g_value_def)
  from assms show thesis
    unfolding cell_emit_def Let_def c
    by (auto split: option.splits intro: that)
qed

lemma filter_predicate_id_cell_adds:
  "filter (\<lambda>t. fst (snd t) = SSSOM ''predicate_id'') (cell_adds rt msi cid_val subj ob measure_val rel) =
     [(mapping_node_of rt msi (cid_str_of cid_val) subj ob, SSSOM ''predicate_id'', pred_uri_of rel)]"
  by (simp add: cell_adds_def Let_def vocab_distinct filter_confidence_adds_other)

lemma filter_record_id_cell_adds:
  "filter (\<lambda>t. fst (snd t) = SSSOM ''record_id'') (cell_adds rt msi cid_val subj ob measure_val rel) =
     (if cid_str_of cid_val \<noteq> [] then
        [(mapping_node_of rt msi (cid_str_of cid_val) subj ob, SSSOM ''record_id'',
          Literal (cid_str_of cid_val) None None)] else [])"
  by (simp add: cell_adds_def Let_def vocab_distinct filter_confidence_adds_other)

lemma filter_confidence_cell_adds:
  "filter (\<lambda>t. fst (snd t) = SSSOM ''confidence'') (cell_adds rt msi cid_val subj ob measure_val rel) =
     confidence_adds rt (mapping_node_of rt msi (cid_str_of cid_val) subj ob) measure_val"
proof -
  have "filter (\<lambda>t. fst (snd t) = SSSOM ''confidence'') (confidence_adds rt n measure_val)
        = confidence_adds rt n measure_val" for n
    by (auto simp: filter_id_conv dest: confidence_adds_pred)
  then show ?thesis
    by (simp add: cell_adds_def Let_def vocab_distinct)
qed

lemma filter_mapping_type_cell_adds:
  "filter (\<lambda>t. fst (snd t) = RDF_type) (cell_adds rt msi cid_val subj ob measure_val rel) =
     [(mapping_node_of rt msi (cid_str_of cid_val) subj ob, RDF_type, SSSOM ''Mapping'')]"
proof -
  have "filter (\<lambda>t. fst (snd t) = RDF_type) (confidence_adds rt n measure_val) = []" for n
    by (auto simp: filter_empty_conv vocab_distinct dest!: confidence_adds_pred)
  then show ?thesis
    by (simp add: cell_adds_def Let_def vocab_distinct)
qed

lemma cell_adds_subject:
  "t \<in> set (cell_adds rt msi cid_val subj ob measure_val rel) \<Longrightarrow>
     fst t = mapping_node_of rt msi (cid_str_of cid_val) subj ob"
  by (auto simp: cell_adds_def Let_def confidence_adds_def split: if_splits option.splits)


lemma map_filter_append: "List.map_filter f (xs @ ys) = List.map_filter f xs @ List.map_filter f ys"
  by (simp add: List.map_filter_def)

lemma process_cell_nodes:
  "all_mapping_nodes (process_cell rt g_in preds msi c st) =
     all_mapping_nodes st @ map fst (List.map_filter (cell_emit rt g_in preds msi) [c])"
  by (simp add: process_cell_def List.map_filter_def split: option.splits)

lemma process_cell_g_out:
  "set (g_out (process_cell rt g_in preds msi c st)) =
     set (g_out st) \<union> (\<Union>e \<in> set (List.map_filter (cell_emit rt g_in preds msi) [c]). set (snd e))"
  by (auto simp: process_cell_def List.map_filter_def set_fold_graph_add split: option.splits)

lemma process_cell_sources:
  "subj_source (process_cell rt g_in preds msi c st) = subj_source st"
  "obj_source (process_cell rt g_in preds msi c st) = obj_source st"
  by (simp_all add: process_cell_def split: option.splits)

lemma fold_process_cell_nodes:
  "all_mapping_nodes (fold (process_cell rt g_in preds msi) cs st) =
     all_mapping_nodes st @ map fst (List.map_filter (cell_emit rt g_in preds msi) cs)"
proof (induction cs arbitrary: st)
  case Nil
  show ?case by (simp add: List.map_filter_def)
next
  case (Cons c cs)
  have "List.map_filter (cell_emit rt g_in preds msi) (c # cs) =
        List.map_filter (cell_emit rt g_in preds msi) [c] @ List.map_filter (cell_emit rt g_in preds msi) cs"
    using map_filter_append [of _ "[c]" cs] by simp
  then show ?case
    by (simp add: Cons.IH process_cell_nodes)
qed

lemma fold_process_cell_g_out:
  "set (g_out (fold (process_cell rt g_in preds msi) cs st)) =
     set (g_out st) \<union> (\<Union>e \<in> set (List.map_filter (cell_emit rt g_in preds msi) cs). set (snd e))"
proof (induction cs arbitrary: st)
  case Nil
  show ?case by (simp add: List.map_filter_def)
next
  case (Cons c cs)
  have "List.map_filter (cell_emit rt g_in preds msi) (c # cs) =
        List.map_filter (cell_emit rt g_in preds msi) [c] @ List.map_filter (cell_emit rt g_in preds msi) cs"
    using map_filter_append [of _ "[c]" cs] by simp
  then show ?case
    by (simp add: Cons.IH process_cell_g_out Un_assoc)
qed

lemma fold_process_cell_sources:
  "subj_source (fold (process_cell rt g_in preds msi) cs st) = subj_source st"
  "obj_source (fold (process_cell rt g_in preds msi) cs st) = obj_source st"
  by (induction cs arbitrary: st) (simp_all add: process_cell_sources)

lemma process_alignment_nodes:
  "all_mapping_nodes (process_alignment rt g_in preds msi aln st) =
     all_mapping_nodes st @ map fst (emitted rt g_in preds msi [aln])"
  by (simp add: process_alignment_def Let_def fold_process_cell_nodes emitted_def
      visited_cells_def split: option.splits)

lemma process_alignment_g_out:
  "set (g_out (process_alignment rt g_in preds msi aln st)) =
     set (g_out st) \<union> (\<Union>e \<in> set (emitted rt g_in preds msi [aln]). set (snd e))"
  by (simp add: process_alignment_def Let_def fold_process_cell_g_out emitted_def
      visited_cells_def split: option.splits)

lemma emitted_Cons:
  "emitted rt g_in preds msi (aln # alns) =
     emitted rt g_in preds msi [aln] @ emitted rt g_in preds msi alns"
  by (simp add: emitted_def visited_cells_def map_filter_append)

lemma fold_process_alignment_nodes:
  "all_mapping_nodes (fold (process_alignment rt g_in preds msi) alns st) =
     all_mapping_nodes st @ map fst (emitted rt g_in preds msi alns)"
proof (induction alns arbitrary: st)
  case Nil
  show ?case by (simp add: emitted_def visited_cells_def List.map_filter_def)
next
  case (Cons aln alns)
  show ?case
    by (simp add: Cons.IH process_alignment_nodes emitted_Cons [of _ _ _ _ aln alns])
qed

lemma fold_process_alignment_g_out:
  "set (g_out (fold (process_alignment rt g_in preds msi) alns st)) =
     set (g_out st) \<union> (\<Union>e \<in> set (emitted rt g_in preds msi alns). set (snd e))"
proof (induction alns arbitrary: st)
  case Nil
  show ?case by (simp add: emitted_def visited_cells_def List.map_filter_def)
next
  case (Cons aln alns)
  show ?case
    by (simp add: Cons.IH process_alignment_g_out emitted_Cons [of _ _ _ _ aln alns] Un_assoc)
qed

lemma run_loops_nodes:
  "all_mapping_nodes (run_loops rt g_in preds msi alns) = map fst (emitted rt g_in preds msi alns)"
  by (simp add: run_loops_def fold_process_alignment_nodes new_output_def)

lemma run_loops_g_out:
  "set (g_out (run_loops rt g_in preds msi alns)) =
     {(URIRef msi, RDF_type, OWL_Ontology), (URIRef msi, RDF_type, SSSOM ''MappingSet'')}
     \<union> (\<Union>e \<in> set (emitted rt g_in preds msi alns). set (snd e))"
proof -
  have "set (g_out (new_output msi)) =
     {(URIRef msi, RDF_type, OWL_Ontology), (URIRef msi, RDF_type, SSSOM ''MappingSet'')}"
    by (auto simp: new_output_def graph_add_def)
  then show ?thesis
    by (simp add: run_loops_def fold_process_alignment_g_out)
qed

lemma set_fold_mappings:
  "set (fold (\<lambda>m. graph_add (s, p, m)) ms g) = (\<lambda>m. (s, p, m)) ` set ms \<union> set g"
  by (induction ms arbitrary: g) (auto simp: graph_add_def)

lemma link_mapping_set_set:
  "set (link_mapping_set msi st) =
     set (g_out st)
     \<union> (case subj_source st of Some v \<Rightarrow> {(URIRef msi, SSSOM ''subject_source'', v)} | None \<Rightarrow> {})
     \<union> (case obj_source st of Some v \<Rightarrow> {(URIRef msi, SSSOM ''object_source'', v)} | None \<Rightarrow> {})
     \<union> (\<lambda>m. (URIRef msi, SSSOM ''mappings'', m)) ` set (all_mapping_nodes st)"
  by (auto simp: link_mapping_set_def Let_def set_fold_mappings graph_add_def split: option.splits)


subsection \<open>Discovery\<close>

lemma endswith_last: "endswith s suf \<Longrightarrow> suf \<noteq> [] \<Longrightarrow> last s = last suf"
  by (auto simp: endswith_def suffix_def)

lemma Alignment_not_Cell: "endswith s ''Alignment'' \<Longrightarrow> \<not> endswith s ''Cell''"
  by (auto dest!: endswith_last)

lemma local_name_RDF_type: "local_name RDF_type = ''type''"
  by (simp add: local_name_def RDF_type_def after_last_def)

lemma scan_predicate_RDF_type: "scan_predicate RDF_type r = r"
  by (simp add: scan_predicate_def local_name_RDF_type endswith_def suffix_to_prefix)

lemma forget_fields:
  "onto1_pred (forget r) = onto1_pred r" "onto2_pred (forget r) = onto2_pred r"
  "map_pred (forget r) = map_pred r" "entity1_pred (forget r) = entity1_pred r"
  "entity2_pred (forget r) = entity2_pred r" "measure_pred (forget r) = measure_pred r"
  "relation_pred (forget r) = relation_pred r" "cid_pred (forget r) = cid_pred r"
  "alignment_class (forget r) = alignment_class r"
  by (simp_all add: forget_def)

lemma forget_scan_cell_typing: "cell_typing t \<Longrightarrow> forget (scan_triple t r) = forget r"
  by (auto simp: cell_typing_def scan_triple_def scan_predicate_RDF_type scan_class_def Let_def
      forget_def dest: Alignment_not_Cell)

lemma forget_scan_predicate: "forget (scan_predicate p r) = scan_predicate p (forget r)"
  by (simp add: scan_predicate_def forget_def Let_def)

lemma forget_scan_class: "forget (scan_class p ob r) = forget (scan_class p ob (forget r))"
  by (simp add: scan_class_def forget_def Let_def)

lemma forget_scan_triple: "forget (scan_triple t r) = forget (scan_triple t (forget r))"
  unfolding scan_triple_def
  by (metis forget_scan_class forget_scan_predicate)

lemma forget_fold_scan:
  "forget r = forget r' \<Longrightarrow>
     forget (fold scan_triple g r) = forget (fold scan_triple (without_cell_typing g) r')"
proof (induction g arbitrary: r r')
  case Nil
  then show ?case by (simp add: without_cell_typing_def)
next
  case (Cons t g)
  show ?case
  proof (cases "cell_typing t")
    case True
    then have "forget (scan_triple t r) = forget r'"
      using Cons.prems by (simp add: forget_scan_cell_typing)
    from Cons.IH [OF this] True show ?thesis
      by (simp add: without_cell_typing_def)
  next
    case False
    have "forget (scan_triple t r) = forget (scan_triple t r')"
      using Cons.prems forget_scan_triple [of t r] forget_scan_triple [of t r'] by simp
    from Cons.IH [OF this] False show ?thesis
      by (simp add: without_cell_typing_def)
  qed
qed

lemma forget_discover: "forget (discover (without_cell_typing g)) = forget (discover g)"
  unfolding discover_def using forget_fold_scan [of no_roles no_roles g] by simp

lemma preds_not_type_scan: "preds_not_type r \<Longrightarrow> preds_not_type (scan_triple t r)"
proof (cases "fst (snd t) = RDF_type")
  case True
  assume "preds_not_type r"
  then show ?thesis using True
    by (simp add: scan_triple_def scan_predicate_RDF_type scan_class_def Let_def preds_not_type_def)
next
  case False
  assume "preds_not_type r"
  then show ?thesis using False
    by (simp add: scan_triple_def scan_predicate_def scan_class_def Let_def preds_not_type_def)
qed

lemma preds_not_type_fold: "preds_not_type r \<Longrightarrow> preds_not_type (fold scan_triple g r)"
  by (induction g arbitrary: r) (simp_all add: preds_not_type_scan)

lemma preds_not_type_discover: "preds_not_type (discover g)"
  unfolding discover_def by (rule preds_not_type_fold) (simp add: preds_not_type_def no_roles_def)

lemma alignment_class_scan_predicate: "alignment_class (scan_predicate p r) = alignment_class r"
  by (simp add: scan_predicate_def Let_def)

lemma class_from_fold:
  "class_from g0 r \<Longrightarrow> set g \<subseteq> set g0 \<Longrightarrow> class_from g0 (fold scan_triple g r)"
proof (induction g arbitrary: r)
  case Nil
  then show ?case by simp
next
  case (Cons t g)
  have "class_from g0 (scan_triple t r)"
  proof (cases "alignment_class (scan_triple t r) = alignment_class r")
    case True
    with Cons.prems(1) show ?thesis by (simp add: class_from_def)
  next
    case False
    then have "fst (snd t) = RDF_type \<and> endswith (local_name (snd (snd t))) ''Alignment''
        \<and> alignment_class (scan_triple t r) = Some (snd (snd t))"
      by (auto simp: scan_triple_def scan_class_def Let_def alignment_class_scan_predicate
          split: if_splits)
    moreover have "t \<in> set g0" using Cons.prems(2) by simp
    ultimately show ?thesis
      by (cases t) (auto simp: class_from_def)
  qed
  moreover have "set g \<subseteq> set g0" using Cons.prems(2) by simp
  ultimately show ?case by (simp add: Cons.IH)
qed

lemma class_from_discover: "class_from g (discover g)"
  unfolding discover_def by (rule class_from_fold) (simp_all add: class_from_def no_roles_def)


subsection \<open>Removing the typing triples of cells\<close>

lemma roles_without_cell_typing:
  "onto1_pred (discover (without_cell_typing g)) = onto1_pred (discover g)"
  "onto2_pred (discover (without_cell_typing g)) = onto2_pred (discover g)"
  "map_pred (discover (without_cell_typing g)) = map_pred (discover g)"
  "entity1_pred (discover (without_cell_typing g)) = entity1_pred (discover g)"
  "entity2_pred (discover (without_cell_typing g)) = entity2_pred (discover g)"
  "measure_pred (discover (without_cell_typing g)) = measure_pred (discover g)"
  "relation_pred (discover (without_cell_typing g)) = relation_pred (discover g)"
  "cid_pred (discover (without_cell_typing g)) = cid_pred (discover g)"
  "alignment_class (discover (without_cell_typing g)) = alignment_class (discover g)"
  using forget_discover [of g] forget_fields [of "discover g"]
    forget_fields [of "discover (without_cell_typing g)"]
  by simp_all

lemma g_triples_without_cell_typing:
  assumes "\<And>t. cell_typing t \<Longrightarrow> \<not> (matches pp (fst (snd t)) \<and> matches opat (snd (snd t)))"
  shows "g_triples (without_cell_typing g) sp pp opat = g_triples g sp pp opat"
  unfolding g_triples_def without_cell_typing_def filter_filter
  by (rule filter_cong) (use assms in auto)

lemma g_objects_without_cell_typing:
  assumes "pp \<noteq> None" and "pp \<noteq> Some RDF_type"
  shows "g_objects (without_cell_typing g) sp pp = g_objects g sp pp"
  unfolding g_objects_def
  using assms by (subst g_triples_without_cell_typing) (auto simp: cell_typing_def matches_def)

lemma g_value_without_cell_typing:
  assumes "pp \<noteq> Some RDF_type"
  shows "g_value (without_cell_typing g) s pp = g_value g s pp"
proof (cases "pp = None")
  case True
  then show ?thesis by (simp add: g_value_def)
next
  case False
  with assms have "g_objects (without_cell_typing g) (Some s) pp = g_objects g (Some s) pp"
    by (simp add: g_objects_without_cell_typing)
  then show ?thesis by (simp add: g_value_def)
qed

lemma cell_emit_without_cell_typing:
  "cell_emit rt (without_cell_typing g) (find_predicates_and_classes (without_cell_typing g)) msi cell
   = cell_emit rt g (find_predicates_and_classes g) msi cell"
  using preds_not_type_discover [of g]
  by (simp add: cell_emit_def dict_get_roles roles_without_cell_typing
      g_value_without_cell_typing preds_not_type_def)

lemma process_cell_without_cell_typing:
  "process_cell rt (without_cell_typing g) (find_predicates_and_classes (without_cell_typing g)) msi
   = process_cell rt g (find_predicates_and_classes g) msi"
  by (intro ext) (simp add: process_cell_def cell_emit_without_cell_typing)

lemma process_alignment_without_cell_typing:
  assumes "map_pred (discover g) \<noteq> None"
  shows "process_alignment rt (without_cell_typing g)
           (find_predicates_and_classes (without_cell_typing g)) msi
         = process_alignment rt g (find_predicates_and_classes g) msi"
  using preds_not_type_discover [of g] assms
  by (intro ext)
     (simp add: process_alignment_def process_cell_without_cell_typing dict_get_roles
       roles_without_cell_typing g_value_without_cell_typing g_objects_without_cell_typing
       preds_not_type_def)

lemma alignments_of_without_cell_typing:
  assumes "alignment_class (discover g) \<noteq> None"
  shows "alignments_of (without_cell_typing g) (find_predicates_and_classes (without_cell_typing g))
         = alignments_of g (find_predicates_and_classes g)"
proof -
  obtain c where c: "alignment_class (discover g) = Some c" using assms by auto
  with class_from_discover [of g] have "endswith (local_name c) ''Alignment''"
    by (simp add: class_from_def)
  then have "\<not> endswith (local_name c) ''Cell''" by (rule Alignment_not_Cell)
  then have "g_triples (without_cell_typing g) None (Some RDF_type) (Some c)
        = g_triples g None (Some RDF_type) (Some c)"
    by (intro g_triples_without_cell_typing) (auto simp: cell_typing_def matches_def)
  then show ?thesis
    by (simp add: alignments_of_def dict_get_roles roles_without_cell_typing c)
qed

lemma missing_eq:
  "filter (\<lambda>k. dict_get (find_predicates_and_classes g) k = None) required_keys = [] \<longleftrightarrow>
     onto1_pred (discover g) \<noteq> None \<and> onto2_pred (discover g) \<noteq> None
     \<and> map_pred (discover g) \<noteq> None \<and> entity1_pred (discover g) \<noteq> None
     \<and> entity2_pred (discover g) \<noteq> None \<and> measure_pred (discover g) \<noteq> None
     \<and> relation_pred (discover g) \<noteq> None \<and> alignment_class (discover g) \<noteq> None"
  by (simp add: required_keys_def dict_get_roles filter_empty_conv)

lemma dict_get_without_cell_typing:
  "k \<in> set required_keys \<Longrightarrow>
     dict_get (find_predicates_and_classes (without_cell_typing g)) k
     = dict_get (find_predicates_and_classes g) k"
  by (auto simp: required_keys_def dict_get_roles roles_without_cell_typing)

lemma missing_without_cell_typing:
  "filter (\<lambda>k. dict_get (find_predicates_and_classes (without_cell_typing g)) k = None) required_keys
   = filter (\<lambda>k. dict_get (find_predicates_and_classes g) k = None) required_keys"
  by (rule filter_cong) (simp_all add: dict_get_without_cell_typing)

lemma alignments_of_nonempty:
  assumes "alignment_class (discover g) \<noteq> None"
  shows "alignments_of g (find_predicates_and_classes g) \<noteq> []"
proof -
  obtain c where c: "alignment_class (discover g) = Some c" using assms by auto
  with class_from_discover [of g] obtain s where "(s, RDF_type, c) \<in> set g"
    by (auto simp: class_from_def)
  then have "(s, RDF_type, c) \<in> set (g_triples g None (Some RDF_type) (Some c))"
    by (simp add: g_triples_def matches_def)
  then have "g_triples g None (Some RDF_type) (Some c) \<noteq> []" by auto
  then show ?thesis
    by (simp add: alignments_of_def dict_get_roles c)
qed

lemma convert_graph_skip:
  assumes "filter (\<lambda>k. dict_get (find_predicates_and_classes g) k = None) required_keys \<noteq> []"
  shows "convert_graph rt nm out g w =
     (None, print_msg (WarnMissing nm
        (filter (\<lambda>k. dict_get (find_predicates_and_classes g) k = None) required_keys)) w)"
  unfolding convert_graph_def Let_def using assms by (rule if_P)

lemma convert_graph_write:
  assumes "filter (\<lambda>k. dict_get (find_predicates_and_classes g) k = None) required_keys = []"
  shows "convert_graph rt nm out g w =
     (if can_serialize rt out (output_graph rt nm g)
      then (None, print_msg (WroteOK out)
              (w\<lparr>written := written w @ [(out, output_graph rt nm g)]\<rparr>))
      else (Some SerializeError, w))"
proof -
  have "alignment_class (discover g) \<noteq> None"
    using assms by (simp add: missing_eq)
  then have a: "alignments_of g (find_predicates_and_classes g) \<noteq> []"
    by (rule alignments_of_nonempty)
  have n: "\<not> filter (\<lambda>k. dict_get (find_predicates_and_classes g) k = None) required_keys \<noteq> []"
    using assms by simp
  have "convert_graph rt nm out g w =
      (case serialize rt out (output_graph rt nm g) w of
         (Some e, w') \<Rightarrow> (Some e, w')
       | (None, w') \<Rightarrow> (None, print_msg (WroteOK out) w'))"
    unfolding convert_graph_def Let_def output_graph_def
    by (simp only: if_not_P [OF n] if_not_P [OF a])
  then show ?thesis
    by (simp add: serialize_def)
qed

lemma run_loops_without_cell_typing:
  assumes "map_pred (discover g) \<noteq> None"
  shows "run_loops rt (without_cell_typing g) (find_predicates_and_classes (without_cell_typing g))
           msi alns
         = run_loops rt g (find_predicates_and_classes g) msi alns"
  unfolding run_loops_def
  by (simp only: process_alignment_without_cell_typing [OF assms])

lemma output_graph_without_cell_typing:
  assumes "filter (\<lambda>k. dict_get (find_predicates_and_classes g) k = None) required_keys = []"
  shows "output_graph rt nm (without_cell_typing g) = output_graph rt nm g"
proof -
  from assms have m: "map_pred (discover g) \<noteq> None" and a: "alignment_class (discover g) \<noteq> None"
    by (simp_all add: missing_eq)
  show ?thesis
    unfolding output_graph_def
    by (simp only: alignments_of_without_cell_typing [OF a] run_loops_without_cell_typing [OF m])
qed

lemma convert_graph_without_cell_typing:
  "convert_graph rt nm out (without_cell_typing g) w = convert_graph rt nm out g w"
proof (cases "filter (\<lambda>k. dict_get (find_predicates_and_classes g) k = None) required_keys = []")
  case False
  then have "filter (\<lambda>k. dict_get (find_predicates_and_classes (without_cell_typing g)) k = None)
      required_keys \<noteq> []"
    by (simp add: missing_without_cell_typing)
  then have "convert_graph rt nm out (without_cell_typing g) w =
      (None, print_msg (WarnMissing nm
        (filter (\<lambda>k. dict_get (find_predicates_and_classes g) k = None) required_keys)) w)"
    by (simp add: convert_graph_skip missing_without_cell_typing)
  also have "\<dots> = convert_graph rt nm out g w"
    using False by (simp add: convert_graph_skip)
  finally show ?thesis .
next
  case True
  then have "filter (\<lambda>k. dict_get (find_predicates_and_classes (without_cell_typing g)) k = None)
      required_keys = []"
    by (simp add: missing_without_cell_typing)
  then have "convert_graph rt nm out (without_cell_typing g) w =
     (if can_serialize rt out (output_graph rt nm g)
      then (None, print_msg (WroteOK out)
              (w\<lparr>written := written w @ [(out, output_graph rt nm g)]\<rparr>))
      else (Some SerializeError, w))"
    by (simp only: convert_graph_write output_graph_without_cell_typing [OF True])
  also have "\<dots> = convert_graph rt nm out g w"
    using True by (simp only: convert_graph_write)
  finally show ?thesis .
qed

subsection \<open>The result of a conversion\<close>

lemma filter_keys:
  "\<forall>kv \<in> set xs. f (fst kv) = snd kv \<Longrightarrow>
     filter (\<lambda>k. f k = None) (map fst xs) = map fst (filter (\<lambda>kv. snd kv = None) xs)"
  by (induction xs) auto

lemma missing_unresolved:
  "filter (\<lambda>k. dict_get (find_predicates_and_classes g) k = None) required_keys
   = unresolved_roles (discover g)"
proof -
  have k: "required_keys = map fst (required_roles (discover g))"
    by (simp add: required_keys_def required_roles_def)
  have "\<forall>kv \<in> set (required_roles (discover g)).
          dict_get (find_predicates_and_classes g) (fst kv) = snd kv"
    by (simp add: required_roles_def dict_get_roles)
  from filter_keys [OF this] show ?thesis
    by (simp only: k unresolved_roles_def)
qed

lemma unresolved_roles_empty:
  "unresolved_roles r = [] \<longleftrightarrow>
     onto1_pred r \<noteq> None \<and> onto2_pred r \<noteq> None \<and> map_pred r \<noteq> None
     \<and> entity1_pred r \<noteq> None \<and> entity2_pred r \<noteq> None \<and> measure_pred r \<noteq> None
     \<and> relation_pred r \<noteq> None \<and> alignment_class r \<noteq> None"
  by (simp add: unresolved_roles_def required_roles_def filter_empty_conv)

lemma convert_graph_exn:
  "fst (convert_graph rt nm out g w) =
     (if unresolved_roles (discover g) = [] \<and> \<not> can_serialize rt out (output_graph rt nm g)
      then Some SerializeError else None)"
proof (cases "unresolved_roles (discover g) = []")
  case True
  then show ?thesis
    by (simp add: convert_graph_write missing_unresolved)
next
  case False
  then have "filter (\<lambda>k. dict_get (find_predicates_and_classes g) k = None) required_keys \<noteq> []"
    by (simp add: missing_unresolved)
  then show ?thesis
    using False by (simp add: convert_graph_skip)
qed

lemma convert_graph_console:
  "console (snd (convert_graph rt nm out g w)) =
     console w @
       (if unresolved_roles (discover g) \<noteq> [] then [WarnMissing nm (unresolved_roles (discover g))]
        else if can_serialize rt out (output_graph rt nm g) then [WroteOK out] else [])"
proof (cases "unresolved_roles (discover g) = []")
  case True
  then show ?thesis
    by (simp add: convert_graph_write missing_unresolved print_msg_def)
next
  case False
  then have "filter (\<lambda>k. dict_get (find_predicates_and_classes g) k = None) required_keys \<noteq> []"
    by (simp add: missing_unresolved)
  then show ?thesis
    using False by (simp add: convert_graph_skip print_msg_def missing_unresolved)
qed

lemma emitted_in_output:
  assumes "cell \<in> set (visited_cells g_in preds alns)"
    and "cell_emit rt g_in preds msi cell = Some (node, adds)"
  shows "set adds \<subseteq> set (link_mapping_set msi (run_loops rt g_in preds msi alns))"
    and "(URIRef msi, SSSOM ''mappings'', node)
           \<in> set (link_mapping_set msi (run_loops rt g_in preds msi alns))"
proof -
  from assms have m: "(node, adds) \<in> set (emitted rt g_in preds msi alns)"
    by (force simp: emitted_def List.map_filter_def)
  then show "set adds \<subseteq> set (link_mapping_set msi (run_loops rt g_in preds msi alns))"
    by (force simp: link_mapping_set_set run_loops_g_out)
  from m have "node \<in> set (all_mapping_nodes (run_loops rt g_in preds msi alns))"
    by (force simp: run_loops_nodes)
  then show "(URIRef msi, SSSOM ''mappings'', node)
           \<in> set (link_mapping_set msi (run_loops rt g_in preds msi alns))"
    by (simp add: link_mapping_set_set)
qed

lemma cell_emit_complete:
  assumes "g_value g_in cell (dict_get preds ''entity1'') = Some sv"
    and "g_value g_in cell (dict_get preds ''entity2'') = Some ov"
  shows "cell_emit rt g_in preds msi cell =
     Some (mapping_node_of rt msi (cid_str_of (g_value g_in cell (dict_get preds ''cid''))) sv ov,
           cell_adds rt msi (g_value g_in cell (dict_get preds ''cid'')) sv ov
             (g_value g_in cell (dict_get preds ''measure''))
             (g_value g_in cell (dict_get preds ''relation'')))"
proof -
  have c: "(if dict_get preds ''cid'' \<noteq> None then g_value g_in cell (dict_get preds ''cid'') else None)
           = g_value g_in cell (dict_get preds ''cid'')"
    by (simp add: g_value_def)
  show ?thesis
    unfolding cell_emit_def Let_def c by (simp add: assms)
qed

lemma emitted_cell:
  assumes "e \<in> set (emitted rt g_in preds msi alns)"
  obtains cell where "cell \<in> set (visited_cells g_in preds alns)"
    and "cell_emit rt g_in preds msi cell = Some e"
  using assms by (auto simp: emitted_def List.map_filter_def)

lemma emitted_typing:
  assumes "e \<in> set (emitted rt g_in preds msi alns)"
  shows "filter (\<lambda>t. fst (snd t) = RDF_type) (snd e) = [(fst e, RDF_type, SSSOM ''Mapping'')]"
proof -
  from assms obtain cell where "cell_emit rt g_in preds msi cell = Some (fst e, snd e)"
    by (auto elim: emitted_cell)
  then show ?thesis
    by (rule cell_emit_SomeD) (simp add: filter_mapping_type_cell_adds)
qed

lemma vocab_distinct_more:
  "OWL_Ontology \<noteq> SSSOM a" "SSSOM a \<noteq> OWL_Ontology"
  by (simp_all add: OWL_Ontology_def SSSOM_def)

lemma mapping_typed_in_output:
  "(s, RDF_type, SSSOM ''Mapping'') \<in> set (link_mapping_set msi (run_loops rt g_in preds msi alns))
   \<longleftrightarrow> s \<in> fst ` set (emitted rt g_in preds msi alns)"
proof
  assume "(s, RDF_type, SSSOM ''Mapping'') \<in> set (link_mapping_set msi (run_loops rt g_in preds msi alns))"
  then have "\<exists>e \<in> set (emitted rt g_in preds msi alns). (s, RDF_type, SSSOM ''Mapping'') \<in> set (snd e)"
    by (auto simp: link_mapping_set_set run_loops_g_out vocab_distinct vocab_distinct_more
        split: option.splits)
  then obtain e where e: "e \<in> set (emitted rt g_in preds msi alns)"
    and "(s, RDF_type, SSSOM ''Mapping'') \<in> set (snd e)" by blast
  then have "(s, RDF_type, SSSOM ''Mapping'') \<in> set (filter (\<lambda>t. fst (snd t) = RDF_type) (snd e))"
    by simp
  then have "s = fst e" by (simp add: emitted_typing [OF e])
  with e show "s \<in> fst ` set (emitted rt g_in preds msi alns)" by blast
next
  assume "s \<in> fst ` set (emitted rt g_in preds msi alns)"
  then obtain e where e: "e \<in> set (emitted rt g_in preds msi alns)" and s: "s = fst e" by blast
  have "(fst e, RDF_type, SSSOM ''Mapping'') \<in> set (filter (\<lambda>t. fst (snd t) = RDF_type) (snd e))"
    by (simp add: emitted_typing [OF e])
  then have "(fst e, RDF_type, SSSOM ''Mapping'') \<in> set (snd e)" by simp
  with e s show "(s, RDF_type, SSSOM ''Mapping'') \<in> set (link_mapping_set msi (run_loops rt g_in preds msi alns))"
    by (auto simp: link_mapping_set_set run_loops_g_out)
qed

lemma set_mapping_resources:
  "set (mapping_resources (link_mapping_set msi (run_loops rt g_in preds msi alns)))
   = set (all_mapping_nodes (run_loops rt g_in preds msi alns))"
proof -
  have "set (mapping_resources g) = {s. (s, RDF_type, SSSOM ''Mapping'') \<in> set g}" for g
    by (force simp: mapping_resources_def g_triples_def matches_def)
  then show ?thesis
    by (auto simp: mapping_typed_in_output run_loops_nodes)
qed

lemma length_mapping_resources:
  "length (mapping_resources (link_mapping_set msi (run_loops rt g_in preds msi alns)))
   = card (set (all_mapping_nodes (run_loops rt g_in preds msi alns)))"
proof -
  have "distinct (mapping_resources g)" for g
    by (simp add: mapping_resources_def)
  then show ?thesis
    by (metis distinct_card set_mapping_resources)
qed

subsection \<open>The batch driver\<close>

lemma convert_alignment_file_exn:
  "fst (convert_alignment_file rt f out w) =
     (case turtle f of
        None \<Rightarrow> Some TurtleParseError
      | Some stmts \<Rightarrow>
          if unresolved_roles (discover (fold graph_add stmts [])) = []
             \<and> \<not> can_serialize rt out (output_graph rt (fname f) (fold graph_add stmts []))
          then Some SerializeError else None)"
  by (simp add: convert_alignment_file_def convert_graph_exn split: option.splits)

lemma main_loop_raises:
  "\<exists>f \<in> set fs. turtle f = None \<Longrightarrow>
     fst (main_loop rt od fs w) \<in> {Some TurtleParseError, Some SerializeError}"
proof (induction fs arbitrary: w)
  case Nil
  then show ?case by simp
next
  case (Cons f fs)
  let ?r = "convert_alignment_file rt f (od @ ''/'' @ path_stem (fname f) @ ''_sssom.ttl'') w"
  show ?case
  proof (cases "fst ?r")
    case None
    then have "turtle f \<noteq> None"
      by (auto simp: convert_alignment_file_exn split: option.splits)
    with Cons.prems have "\<exists>f \<in> set fs. turtle f = None"
      by auto
    then show ?thesis
      using None Cons.IH by (cases ?r) auto
  next
    case (Some e)
    then have "e \<in> {TurtleParseError, SerializeError}"
      by (auto simp: convert_alignment_file_exn split: option.splits if_splits)
    then show ?thesis
      using Some by (cases ?r) auto
  qed
qed

lemma main_loop_completes:
  assumes "\<forall>f \<in> set fs. turtle f \<noteq> None" and "\<forall>p g. can_serialize rt p g"
  shows "fst (main_loop rt od fs w) = None"
  using assms(1)
proof (induction fs arbitrary: w)
  case Nil
  then show ?case by simp
next
  case (Cons f fs)
  let ?r = "convert_alignment_file rt f (od @ ''/'' @ path_stem (fname f) @ ''_sssom.ttl'') w"
  from Cons.prems assms(2) have "fst ?r = None"
    by (auto simp: convert_alignment_file_exn split: option.splits)
  then show ?case
    using Cons by (cases ?r) auto
qed

lemma main_raises_on_malformed:
  assumes "f \<in> set entries" and "endswith (fname f) ''.ttl''" and "turtle f = None"
  shows "fst (main rt d (Some entries) od w) \<in> {Some TurtleParseError, Some SerializeError}"
proof -
  from assms have "\<exists>f \<in> set (sort_key fname (filter (\<lambda>f. endswith (fname f) ''.ttl'') entries)).
      turtle f = None"
    by auto
  then show ?thesis
    by (simp only: main_def Let_def option.case main_loop_raises)
qed

section \<open>The batch driver and a malformed file\<close>

text \<open>
  C1. A file whose required roles are missing is skipped and the loop goes on, but a parse
  error is not caught: \<open>main_raises_on_malformed\<close> shows that any malformed \<open>.ttl\<close> file
  in the directory ends the run with an exception, the parse error or the failure of an
  earlier write. In the first directory the malformed
  \<open>a.ttl\<close> comes before the valid \<open>b.ttl\<close>: the run ends with the exception and no
  output file, and \<open>b.ttl\<close> is never converted. In the second the valid file comes first:
  its output is written, and the run still ends with the exception. The specification asks
  for one output file and a run that completes.
\<close>

theorem main_stops_at_malformed_file:
  "main sample_rt ''in'' (Some ex_dir) None empty_world =
     (Some TurtleParseError,
      \<lparr>console = [Processing ''a.ttl'' ''in/a_sssom.ttl''], written = []\<rparr>)
   \<and> fst (main sample_rt ''in'' (Some ex_dir_valid_first) None empty_world) = Some TurtleParseError
   \<and> map fst (written (snd (main sample_rt ''in'' (Some ex_dir_valid_first) None empty_world)))
       = [''in/a_sssom.ttl'']"
  by code_simp

section \<open>Files that miss a required role\<close>

text \<open>
  C3. When discovery leaves any of the eight required roles unresolved, the conversion of
  the file prints the processing line and one warning that names exactly the unresolved
  roles, in the order of \<open>required_keys\<close>, writes no file and returns without raising.
\<close>

theorem missing_roles_skip:
  assumes "turtle f = Some stmts"
    and "unresolved_roles (discover (fold graph_add stmts [])) \<noteq> []"
  shows "convert_alignment_file rt f out w =
           (None, w\<lparr>console := console w @
              [Processing (fname f) out,
               WarnMissing (fname f) (unresolved_roles (discover (fold graph_add stmts [])))]\<rparr>)"
  using assms
  by (simp add: convert_alignment_file_def convert_graph_skip missing_unresolved print_msg_def)

theorem missing_roles_skip_witness:
  "convert_alignment_file sample_rt (ex_file ex_no_measure) ''out/f_sssom.ttl'' empty_world =
      (None, \<lparr>console = [Processing ''f.ttl'' ''out/f_sssom.ttl'',
                          WarnMissing ''f.ttl'' [''measure'', ''relation'']],
              written = []\<rparr>)"
proof -
  have t: "turtle (ex_file ex_no_measure) = Some ex_no_measure"
    by (simp add: ex_file_def)
  have u: "unresolved_roles (discover (fold graph_add ex_no_measure [])) = [''measure'', ''relation'']"
    by code_simp
  then have n: "unresolved_roles (discover (fold graph_add ex_no_measure [])) \<noteq> []"
    by simp
  show ?thesis
    using missing_roles_skip [OF t n, of sample_rt "''out/f_sssom.ttl''" empty_world] u
    by (simp add: ex_file_def empty_world_def)
qed

text \<open>
  C2 as stated fails: the Cell class is not among the required keys. The sample alignment
  types no resource as a cell, so the Cell class is unresolved, and its output file is
  written all the same.
\<close>

theorem cell_class_unresolved_counterexample:
  "cell_class (discover (fold graph_add ex_one [])) = None \<and>
   written (snd (convert_alignment_file sample_rt (ex_file ex_one) ''out/f_sssom.ttl'' empty_world))
     \<noteq> []"
  by code_simp

text \<open>
  C2, amended. cid and the Cell class are the optional roles: for every parsed file, when
  any role other than these two, that is any of onto1, onto2, map, entity1, entity2,
  measure, relation and the Alignment class, is unresolved, the file is skipped and no
  output is produced. The theorem gives the whole result of the conversion: in that case
  the processing line and the warning, no file and no exception; in the other case,
  where neither cid nor the Cell class is looked at, the output graph goes to the
  serialiser, and either the file is written or the exception of the serialiser leaves
  the conversion with no file written.
\<close>

theorem skipped_iff_required_role_unresolved:
  assumes "turtle f = Some stmts" and "g = fold graph_add stmts []" and "r = discover g"
  shows "convert_alignment_file rt f out w =
       (if onto1_pred r = None \<or> onto2_pred r = None \<or> map_pred r = None
           \<or> entity1_pred r = None \<or> entity2_pred r = None \<or> measure_pred r = None
           \<or> relation_pred r = None \<or> alignment_class r = None
        then (None, w\<lparr>console := console w @
                [Processing (fname f) out, WarnMissing (fname f) (unresolved_roles r)]\<rparr>)
        else if can_serialize rt out (output_graph rt (fname f) g)
        then (None, w\<lparr>console := console w @ [Processing (fname f) out, WroteOK out],
                       written := written w @ [(out, output_graph rt (fname f) g)]\<rparr>)
        else (Some SerializeError, w\<lparr>console := console w @ [Processing (fname f) out]\<rparr>))"
proof (cases "unresolved_roles r = []")
  case False
  then have "filter (\<lambda>k. dict_get (find_predicates_and_classes g) k = None) required_keys \<noteq> []"
    by (simp add: missing_unresolved assms(3))
  then have "convert_alignment_file rt f out w =
      (None, print_msg (WarnMissing (fname f) (unresolved_roles r))
         (print_msg (Processing (fname f) out) w))"
    using assms by (simp add: convert_alignment_file_def convert_graph_skip missing_unresolved)
  then have e: "convert_alignment_file rt f out w =
      (None, w\<lparr>console := console w @
                [Processing (fname f) out, WarnMissing (fname f) (unresolved_roles r)]\<rparr>)"
    by (simp add: print_msg_def)
  have d: "onto1_pred r = None \<or> onto2_pred r = None \<or> map_pred r = None
           \<or> entity1_pred r = None \<or> entity2_pred r = None \<or> measure_pred r = None
           \<or> relation_pred r = None \<or> alignment_class r = None"
    using False unresolved_roles_empty [of r] by blast
  show ?thesis
    unfolding if_P [OF d] by (rule e)
next
  case True
  then have "filter (\<lambda>k. dict_get (find_predicates_and_classes g) k = None) required_keys = []"
    by (simp add: missing_unresolved assms(3))
  then have "convert_alignment_file rt f out w =
      (if can_serialize rt out (output_graph rt (fname f) g)
       then (None, print_msg (WroteOK out)
               ((print_msg (Processing (fname f) out) w)
                  \<lparr>written := written (print_msg (Processing (fname f) out) w)
                     @ [(out, output_graph rt (fname f) g)]\<rparr>))
       else (Some SerializeError, print_msg (Processing (fname f) out) w))"
    using assms(1,2) by (simp add: convert_alignment_file_def convert_graph_write Let_def)
  then have e: "convert_alignment_file rt f out w =
      (if can_serialize rt out (output_graph rt (fname f) g)
        then (None, w\<lparr>console := console w @ [Processing (fname f) out, WroteOK out],
                       written := written w @ [(out, output_graph rt (fname f) g)]\<rparr>)
        else (Some SerializeError, w\<lparr>console := console w @ [Processing (fname f) out]\<rparr>))"
    by (simp add: print_msg_def)
  have d: "\<not> (onto1_pred r = None \<or> onto2_pred r = None \<or> map_pred r = None
           \<or> entity1_pred r = None \<or> entity2_pred r = None \<or> measure_pred r = None
           \<or> relation_pred r = None \<or> alignment_class r = None)"
    using True unresolved_roles_empty [of r] by blast
  show ?thesis
    unfolding if_not_P [OF d] by (rule e)
qed

theorem skipped_iff_required_role_unresolved_witness:
  "cid_pred (discover ex_one) = None \<and> cell_class (discover ex_one) = None \<and>
   convert_alignment_file sample_rt (ex_file ex_one) ''out/f_sssom.ttl'' empty_world =
     (None, \<lparr>console = [Processing ''f.ttl'' ''out/f_sssom.ttl'', WroteOK ''out/f_sssom.ttl''],
             written = [(''out/f_sssom.ttl'', output_graph sample_rt ''f.ttl'' ex_one)]\<rparr>) \<and>
   convert_alignment_file sample_rt (ex_file ex_no_measure) ''out/f_sssom.ttl'' empty_world =
     (None, \<lparr>console = [Processing ''f.ttl'' ''out/f_sssom.ttl'',
                         WarnMissing ''f.ttl'' [''measure'', ''relation'']],
             written = []\<rparr>) \<and>
   convert_alignment_file sample_rt (ex_file_blank ex_one) ''out/my file_sssom.ttl'' empty_world =
     (Some SerializeError,
      \<lparr>console = [Processing ''my file.ttl'' ''out/my file_sssom.ttl''], written = []\<rparr>)"
proof -
  have t1: "turtle (ex_file ex_one) = Some ex_one"
    and t2: "turtle (ex_file ex_no_measure) = Some ex_no_measure"
    and t3: "turtle (ex_file_blank ex_one) = Some ex_one"
    by (simp_all add: ex_file_def ex_file_blank_def)
  have g1: "ex_one = fold graph_add ex_one []"
    and g2: "ex_no_measure = fold graph_add ex_no_measure []"
    by code_simp+
  have u1: "unresolved_roles (discover ex_one) = []" by code_simp
  have u2: "measure_pred (discover ex_no_measure) = None"
    and u3: "unresolved_roles (discover ex_no_measure) = [''measure'', ''relation'']"
    by code_simp+
  have c: "cid_pred (discover ex_one) = None \<and> cell_class (discover ex_one) = None" by code_simp
  have s1: "can_serialize sample_rt ''out/f_sssom.ttl'' (output_graph sample_rt ''f.ttl'' ex_one)"
    by code_simp
  have s3: "\<not> can_serialize sample_rt ''out/my file_sssom.ttl''
      (output_graph sample_rt ''my file.ttl'' ex_one)"
    by code_simp
  show ?thesis
    using skipped_iff_required_role_unresolved [OF t1 g1 refl, of sample_rt "''out/f_sssom.ttl''" empty_world]
      skipped_iff_required_role_unresolved [OF t2 g2 refl, of sample_rt "''out/f_sssom.ttl''" empty_world]
      skipped_iff_required_role_unresolved [OF t3 g1 refl, of sample_rt "''out/my file_sssom.ttl''" empty_world]
      u1 [unfolded unresolved_roles_empty] u2 u3 c s1 s3
    by (simp add: empty_world_def ex_file_def ex_file_blank_def)
qed

section \<open>Relation and predicate\<close>

text \<open>
  C5. For a cell that the loops visit and do not skip, the triples added hold exactly one
  \<open>sssom:predicate_id\<close> triple, on the mapping node of the cell; its object is
  \<open>skos:exactMatch\<close> when the relation of the cell is a literal with the string \<open>=\<close>,
  whatever its datatype or language, and \<open>skos:relatedMatch\<close> for every other relation,
  absent or not a literal included. The triples added are in the graph that the loops
  build and the conversion hands to the serialiser.
\<close>

theorem predicate_id_reduction:
  assumes "cell \<in> set (visited_cells g_in preds alns)"
    and "cell_emit rt g_in preds msi cell = Some (node, adds)"
  shows "filter (\<lambda>t. fst (snd t) = SSSOM ''predicate_id'') adds =
           [(node, SSSOM ''predicate_id'',
             if (\<exists>d lg. g_value g_in cell (dict_get preds ''relation'') = Some (Literal ''='' d lg))
             then SKOS ''exactMatch'' else SKOS ''relatedMatch'')]
         \<and> set adds \<subseteq> set (link_mapping_set msi (run_loops rt g_in preds msi alns))
         \<and> SKOS ''exactMatch'' \<noteq> SKOS ''relatedMatch''"
proof -
  from assms(2) show ?thesis
  proof (rule cell_emit_SomeD)
    fix sv ov
    assume "node = mapping_node_of rt msi (cid_str_of (g_value g_in cell (dict_get preds ''cid''))) sv ov"
      and "adds = cell_adds rt msi (g_value g_in cell (dict_get preds ''cid'')) sv ov
              (g_value g_in cell (dict_get preds ''measure''))
              (g_value g_in cell (dict_get preds ''relation''))"
    then have "filter (\<lambda>t. fst (snd t) = SSSOM ''predicate_id'') adds =
           [(node, SSSOM ''predicate_id'', pred_uri_of (g_value g_in cell (dict_get preds ''relation'')))]"
      by (simp add: filter_predicate_id_cell_adds)
    then show ?thesis
      using emitted_in_output(1) [OF assms]
      by (simp add: pred_uri_of_eq vocab_distinct)
  qed
qed

theorem predicate_id_reduction_witness:
  "(URIRef ''http://example.org/mappings/f#m10'', SSSOM ''predicate_id'', SKOS ''exactMatch'')
     \<in> set (ex_out ex_one)
   \<and> (URIRef ''http://example.org/mappings/f#m10'', SSSOM ''predicate_id'', SKOS ''relatedMatch'')
     \<in> set (ex_out ex_bad_measure)"
proof -
  let ?n = "URIRef ''http://example.org/mappings/f#m10''"
  let ?a1 = "cell_adds sample_rt ex_iri None (URIRef ''http://a/x'') (URIRef ''http://b/y'')
     (Some (Literal ''0.95'' None None)) (Some (Literal ''='' None None))"
  let ?a2 = "cell_adds sample_rt ex_iri None (URIRef ''http://a/x'') (URIRef ''http://b/y'')
     (Some (Literal ''not-a-number'' None None)) (Some (Literal ''near'' None None))"
  have v1: "ns ''c1'' \<in> set (visited_cells ex_one (ex_preds ex_one) (ex_alns ex_one))"
    by code_simp
  have v2: "ns ''c1'' \<in> set (visited_cells ex_bad_measure (ex_preds ex_bad_measure) (ex_alns ex_bad_measure))"
    by code_simp
  have e1: "cell_emit sample_rt ex_one (ex_preds ex_one) ex_iri (ns ''c1'') = Some (?n, ?a1)"
    by code_simp
  have e2: "cell_emit sample_rt ex_bad_measure (ex_preds ex_bad_measure) ex_iri (ns ''c1'') = Some (?n, ?a2)"
    by code_simp
  have r1: "g_value ex_one (ns ''c1'') (dict_get (ex_preds ex_one) ''relation'') = Some (Literal ''='' None None)"
    by code_simp
  have r2: "g_value ex_bad_measure (ns ''c1'') (dict_get (ex_preds ex_bad_measure) ''relation'')
      = Some (Literal ''near'' None None)"
    by code_simp
  have m: "\<And>P x y xs S. filter P xs = [x] \<and> set xs \<subseteq> S \<and> y \<Longrightarrow> x \<in> S"
    by (metis filter_is_subset list.set_intros(1) subsetD)
  have "(?n, SSSOM ''predicate_id'', SKOS ''exactMatch'') \<in> set (ex_out ex_one)"
    using predicate_id_reduction [OF v1 e1] r1 unfolding ex_out_def
    by (intro m [of _ ?a1]) simp
  moreover have "(?n, SSSOM ''predicate_id'', SKOS ''relatedMatch'') \<in> set (ex_out ex_bad_measure)"
    using predicate_id_reduction [OF v2 e2] r2 unfolding ex_out_def
    by (intro m [of _ ?a2]) simp
  ultimately show ?thesis by simp
qed

section \<open>Measure and confidence\<close>

text \<open>
  C8. For a cell that the loops visit and do not skip and that has a measure: when
  \<open>float\<close> accepts the string of the measure, the triples added hold exactly one
  \<open>sssom:confidence\<close> triple, whose object is that number as an \<open>xsd:double\<close> literal;
  when \<open>float\<close> raises \<open>ValueError\<close>, they hold none. The triples added are in the graph
  the loops build. No exception and no printed line comes from a measure: the conversion
  of a parsed graph raises only when all required roles are resolved and the serialiser
  refuses the output graph, and what it prints is the warning of a skipped file, or the
  line of a file written, or nothing when the serialiser raises.
\<close>

theorem measure_to_confidence:
  assumes "cell \<in> set (visited_cells g_in preds alns)"
    and "cell_emit rt g_in preds msi cell = Some (node, adds)"
    and "g_value g_in cell (dict_get preds ''measure'') = Some m"
  shows "filter (\<lambda>t. fst (snd t) = SSSOM ''confidence'') adds =
           (case py_float rt (node_str m) of
              Some conf_val \<Rightarrow>
                [(node, SSSOM ''confidence'',
                  Literal (double_lexical rt conf_val) (Some XSD_double) None)]
            | None \<Rightarrow> [])
         \<and> set adds \<subseteq> set (link_mapping_set msi (run_loops rt g_in preds msi alns))
         \<and> fst (convert_graph rt nm out g_in w) =
             (if unresolved_roles (discover g_in) = []
                 \<and> \<not> can_serialize rt out (output_graph rt nm g_in)
              then Some SerializeError else None)
         \<and> console (snd (convert_graph rt nm out g_in w)) =
             console w @
               (if unresolved_roles (discover g_in) \<noteq> []
                then [WarnMissing nm (unresolved_roles (discover g_in))]
                else if can_serialize rt out (output_graph rt nm g_in) then [WroteOK out]
                else [])"
proof -
  from assms(2) have "filter (\<lambda>t. fst (snd t) = SSSOM ''confidence'') adds =
      confidence_adds rt node (g_value g_in cell (dict_get preds ''measure''))"
    by (rule cell_emit_SomeD) (simp add: filter_confidence_cell_adds)
  then have "filter (\<lambda>t. fst (snd t) = SSSOM ''confidence'') adds =
           (case py_float rt (node_str m) of
              Some conf_val \<Rightarrow>
                [(node, SSSOM ''confidence'',
                  Literal (double_lexical rt conf_val) (Some XSD_double) None)]
            | None \<Rightarrow> [])"
    by (simp add: assms(3) confidence_adds_def)
  then show ?thesis
    using emitted_in_output(1) [OF assms(1,2)] convert_graph_exn [of rt nm out g_in w]
      convert_graph_console [of rt nm out g_in w]
    by simp
qed

theorem measure_to_confidence_witness:
  "(URIRef ''http://example.org/mappings/f#m10'', SSSOM ''confidence'',
      Literal ''0.95'' (Some XSD_double) None) \<in> set (ex_out ex_one)
   \<and> fst (convert_graph sample_rt ''f.ttl'' ''out/f_sssom.ttl'' ex_one empty_world) = None
   \<and> filter (\<lambda>t. fst (snd t) = SSSOM ''confidence'')
        (cell_adds sample_rt ex_iri None (URIRef ''http://a/x'') (URIRef ''http://b/y'')
           (Some (Literal ''not-a-number'' None None)) (Some (Literal ''near'' None None))) = []
   \<and> fst (convert_graph sample_rt ''f.ttl'' ''out/f_sssom.ttl'' ex_bad_measure empty_world) = None
   \<and> console (snd (convert_graph sample_rt ''f.ttl'' ''out/f_sssom.ttl'' ex_bad_measure empty_world))
       = [WroteOK ''out/f_sssom.ttl'']
   \<and> fst (convert_graph sample_rt ''f.ttl'' ''out/f_sssom.ttl'' ex_blank_cid empty_world)
       = Some SerializeError"
proof -
  let ?n = "URIRef ''http://example.org/mappings/f#m10''"
  let ?nb = "URIRef ''http://example.org/mappings/f#ma b''"
  let ?a1 = "cell_adds sample_rt ex_iri None (URIRef ''http://a/x'') (URIRef ''http://b/y'')
     (Some (Literal ''0.95'' None None)) (Some (Literal ''='' None None))"
  let ?a2 = "cell_adds sample_rt ex_iri None (URIRef ''http://a/x'') (URIRef ''http://b/y'')
     (Some (Literal ''not-a-number'' None None)) (Some (Literal ''near'' None None))"
  let ?a3 = "cell_adds sample_rt ex_iri (Some (Literal ''a b'' None None)) (URIRef ''http://a/x'')
     (URIRef ''http://b/y'') (Some (Literal ''0.95'' None None)) (Some (Literal ''='' None None))"
  have v1: "ns ''c1'' \<in> set (visited_cells ex_one (ex_preds ex_one) (ex_alns ex_one))"
    by code_simp
  have v2: "ns ''c1'' \<in> set (visited_cells ex_bad_measure (ex_preds ex_bad_measure) (ex_alns ex_bad_measure))"
    by code_simp
  have v3: "ns ''c1'' \<in> set (visited_cells ex_blank_cid (ex_preds ex_blank_cid) (ex_alns ex_blank_cid))"
    by code_simp
  have e1: "cell_emit sample_rt ex_one (ex_preds ex_one) ex_iri (ns ''c1'') = Some (?n, ?a1)"
    by code_simp
  have e2: "cell_emit sample_rt ex_bad_measure (ex_preds ex_bad_measure) ex_iri (ns ''c1'') = Some (?n, ?a2)"
    by code_simp
  have e3: "cell_emit sample_rt ex_blank_cid (ex_preds ex_blank_cid) ex_iri (ns ''c1'') = Some (?nb, ?a3)"
    by code_simp
  have m1: "g_value ex_one (ns ''c1'') (dict_get (ex_preds ex_one) ''measure'')
      = Some (Literal ''0.95'' None None)"
    by code_simp
  have m2: "g_value ex_bad_measure (ns ''c1'') (dict_get (ex_preds ex_bad_measure) ''measure'')
      = Some (Literal ''not-a-number'' None None)"
    by code_simp
  have m3: "g_value ex_blank_cid (ns ''c1'') (dict_get (ex_preds ex_blank_cid) ''measure'')
      = Some (Literal ''0.95'' None None)"
    by code_simp
  have f1: "py_float sample_rt ''0.95'' = Some 95" and l: "double_lexical sample_rt 95 = ''0.95''"
    and f2: "py_float sample_rt ''not-a-number'' = None"
    by code_simp+
  have u: "unresolved_roles (discover ex_one) = []" "unresolved_roles (discover ex_bad_measure) = []"
    "unresolved_roles (discover ex_blank_cid) = []"
    by code_simp+
  have s: "can_serialize sample_rt ''out/f_sssom.ttl'' (output_graph sample_rt ''f.ttl'' ex_one)"
    "can_serialize sample_rt ''out/f_sssom.ttl'' (output_graph sample_rt ''f.ttl'' ex_bad_measure)"
    "\<not> can_serialize sample_rt ''out/f_sssom.ttl'' (output_graph sample_rt ''f.ttl'' ex_blank_cid)"
    by code_simp+
  have m: "\<And>P x xs S. filter P xs = [x] \<Longrightarrow> set xs \<subseteq> S \<Longrightarrow> x \<in> S"
    by (metis filter_is_subset list.set_intros(1) subsetD)
  note t1 = measure_to_confidence [OF v1 e1 m1, of "''f.ttl''" "''out/f_sssom.ttl''" empty_world]
  note t2 = measure_to_confidence [OF v2 e2 m2, of "''f.ttl''" "''out/f_sssom.ttl''" empty_world]
  note t3 = measure_to_confidence [OF v3 e3 m3, of "''f.ttl''" "''out/f_sssom.ttl''" empty_world]
  from t1 f1 l have fl: "filter (\<lambda>t. fst (snd t) = SSSOM ''confidence'') ?a1 =
      [(?n, SSSOM ''confidence'', Literal ''0.95'' (Some XSD_double) None)]"
    by simp
  from t1 have sub: "set ?a1 \<subseteq> set (ex_out ex_one)"
    by (simp add: ex_out_def)
  have "(?n, SSSOM ''confidence'', Literal ''0.95'' (Some XSD_double) None) \<in> set (ex_out ex_one)"
    using fl sub by (rule m)
  moreover from t1 u(1) s(1)
  have "fst (convert_graph sample_rt ''f.ttl'' ''out/f_sssom.ttl'' ex_one empty_world) = None"
    by simp
  moreover from t2 f2 u(2) s(2)
  have "filter (\<lambda>t. fst (snd t) = SSSOM ''confidence'') ?a2 = []
      \<and> fst (convert_graph sample_rt ''f.ttl'' ''out/f_sssom.ttl'' ex_bad_measure empty_world) = None
      \<and> console (snd (convert_graph sample_rt ''f.ttl'' ''out/f_sssom.ttl'' ex_bad_measure empty_world))
          = [WroteOK ''out/f_sssom.ttl'']"
    by (simp add: empty_world_def)
  moreover from t3 u(3) s(3)
  have "fst (convert_graph sample_rt ''f.ttl'' ''out/f_sssom.ttl'' ex_blank_cid empty_world)
       = Some SerializeError"
    by simp
  ultimately show ?thesis by simp
qed

section \<open>The IRI of a mapping\<close>

text \<open>
  C6 as stated fails on a cid that is present with an empty string: the sample cell has the
  cid \<open>""\<close>, and its mapping IRI is not \<open><mapping-set-iri>#m\<close> followed by that cid; the
  hash of the entity pair is used.
\<close>

theorem empty_cid_iri_counterexample:
  "g_value ex_empty_cid (ns ''c1'') (dict_get (ex_preds ex_empty_cid) ''cid'')
     = Some (Literal [] None None)
   \<and> map_option fst (cell_emit sample_rt ex_empty_cid (ex_preds ex_empty_cid) ex_iri (ns ''c1''))
     \<noteq> Some (URIRef (''http://example.org/mappings/f#m'' @ node_str (Literal [] None None)))"
  by code_simp

text \<open>
  C6, amended. For a cell with both entities, read from a file named \<open>nm\<close>: the mapping IRI
  is \<open>http://example.org/mappings/<stem of nm>#m\<close> followed by the string of the cid
  when a cid is present and its string is not empty, and by the decimal digits of
  \<open>abs(hash((entity1, entity2)))\<close> when the cid is absent or its string is empty.
\<close>

theorem mapping_iri_scheme:
  assumes "g_value g_in cell (dict_get preds ''entity1'') = Some sv"
    and "g_value g_in cell (dict_get preds ''entity2'') = Some ov"
  shows "map_option fst (cell_emit rt g_in preds (mapping_set_iri_of nm) cell) =
     Some (URIRef (''http://example.org/mappings/'' @ path_stem nm @ ''#m'' @
        (case g_value g_in cell (dict_get preds ''cid'') of
           Some c \<Rightarrow> if node_str c \<noteq> [] then node_str c
                     else str_int \<bar>py_hash rt (sv, ov)\<bar>
         | None \<Rightarrow> str_int \<bar>py_hash rt (sv, ov)\<bar>)))"
proof -
  have c: "(if dict_get preds ''cid'' \<noteq> None then g_value g_in cell (dict_get preds ''cid'') else None)
           = g_value g_in cell (dict_get preds ''cid'')"
    by (simp add: g_value_def)
  show ?thesis
    unfolding cell_emit_def Let_def c
    by (simp add: assms mapping_node_of_def cid_str_of_def mapping_set_iri_of_def
        split: option.splits)
qed

theorem mapping_iri_scheme_witness:
  "map_option fst (cell_emit sample_rt ex_cid (ex_preds ex_cid) (mapping_set_iri_of ''f.ttl'') (ns ''c1''))
     = Some (URIRef ''http://example.org/mappings/f#m1'')
   \<and> map_option fst (cell_emit sample_rt ex_one (ex_preds ex_one) (mapping_set_iri_of ''f.ttl'') (ns ''c1''))
     = Some (URIRef ''http://example.org/mappings/f#m10'')"
proof -
  have a1: "g_value ex_cid (ns ''c1'') (dict_get (ex_preds ex_cid) ''entity1'') = Some (URIRef ''http://a/x'')"
    and b1: "g_value ex_cid (ns ''c1'') (dict_get (ex_preds ex_cid) ''entity2'') = Some (URIRef ''http://b/y'')"
    and c1: "g_value ex_cid (ns ''c1'') (dict_get (ex_preds ex_cid) ''cid'') = Some (Literal ''1'' None None)"
    by code_simp+
  have a2: "g_value ex_one (ns ''c1'') (dict_get (ex_preds ex_one) ''entity1'') = Some (URIRef ''http://a/x'')"
    and b2: "g_value ex_one (ns ''c1'') (dict_get (ex_preds ex_one) ''entity2'') = Some (URIRef ''http://b/y'')"
    and c2: "g_value ex_one (ns ''c1'') (dict_get (ex_preds ex_one) ''cid'') = None"
    by code_simp+
  have h: "str_int \<bar>py_hash sample_rt (URIRef ''http://a/x'', URIRef ''http://b/y'')\<bar> = ''10''"
    and p: "path_stem ''f.ttl'' = ''f''"
    by code_simp+
  show ?thesis
    using mapping_iri_scheme [OF a1 b1, of sample_rt "''f.ttl''"]
      mapping_iri_scheme [OF a2 b2, of sample_rt "''f.ttl''"] c1 c2 h p
    by simp
qed

text \<open>
  C9. A cell with both entities whose cid is present with an empty string is treated as a
  cell without cid: its mapping IRI ends in the decimal digits of
  \<open>abs(hash((entity1, entity2)))\<close> and no \<open>sssom:record_id\<close> triple is added.
\<close>

theorem empty_cid_falls_back_to_hash:
  assumes "g_value g_in cell (dict_get preds ''entity1'') = Some sv"
    and "g_value g_in cell (dict_get preds ''entity2'') = Some ov"
    and "g_value g_in cell (dict_get preds ''cid'') = Some c"
    and "node_str c = []"
  shows "\<exists>adds. cell_emit rt g_in preds msi cell =
            Some (URIRef (msi @ ''#m'' @ str_int \<bar>py_hash rt (sv, ov)\<bar>), adds)
          \<and> filter (\<lambda>t. fst (snd t) = SSSOM ''record_id'') adds = []"
proof -
  have c: "(if dict_get preds ''cid'' \<noteq> None then g_value g_in cell (dict_get preds ''cid'') else None)
           = g_value g_in cell (dict_get preds ''cid'')"
    by (simp add: g_value_def)
  have s: "cid_str_of (Some c) = []"
    using assms(4) by (simp add: cid_str_of_def)
  show ?thesis
    unfolding cell_emit_def Let_def c
    by (simp add: assms(1-3) filter_record_id_cell_adds s mapping_node_of_def)
qed

theorem empty_cid_falls_back_to_hash_witness:
  "\<exists>adds. cell_emit sample_rt ex_empty_cid (ex_preds ex_empty_cid) ex_iri (ns ''c1'') =
            Some (URIRef ''http://example.org/mappings/f#m10'', adds)
          \<and> filter (\<lambda>t. fst (snd t) = SSSOM ''record_id'') adds = []"
proof -
  have a: "g_value ex_empty_cid (ns ''c1'') (dict_get (ex_preds ex_empty_cid) ''entity1'')
      = Some (URIRef ''http://a/x'')"
    and b: "g_value ex_empty_cid (ns ''c1'') (dict_get (ex_preds ex_empty_cid) ''entity2'')
      = Some (URIRef ''http://b/y'')"
    and c: "g_value ex_empty_cid (ns ''c1'') (dict_get (ex_preds ex_empty_cid) ''cid'')
      = Some (Literal [] None None)"
    by code_simp+
  have n: "node_str (Literal [] None None) = []" by simp
  have h: "ex_iri @ ''#m'' @ str_int \<bar>py_hash sample_rt (URIRef ''http://a/x'', URIRef ''http://b/y'')\<bar>
      = ''http://example.org/mappings/f#m10''"
    by code_simp
  show ?thesis
    using empty_cid_falls_back_to_hash [OF a b c n, of sample_rt ex_iri] h by simp
qed

section \<open>Cells with the same entity pair and no cid\<close>

text \<open>
  The sample alignment \<open>ex_twins\<close> holds two cells, \<open>c1\<close> and \<open>c2\<close>, with the same two
  entities, different relations and measures, and no cid. For every hash function the
  two cells get the same fallback IRI.
\<close>

lemma twins_emitted:
  "emitted rt ex_twins (ex_preds ex_twins) msi (ex_alns ex_twins) =
     [(mapping_node_of rt msi [] (URIRef ''http://a/x'') (URIRef ''http://b/y''),
       cell_adds rt msi None (URIRef ''http://a/x'') (URIRef ''http://b/y'')
         (Some (Literal ''0.95'' None None)) (Some (Literal ''='' None None))),
      (mapping_node_of rt msi [] (URIRef ''http://a/x'') (URIRef ''http://b/y''),
       cell_adds rt msi None (URIRef ''http://a/x'') (URIRef ''http://b/y'')
         (Some (Literal ''0.5'' None None)) (Some (Literal ''<'' None None)))]"
proof -
  have v: "visited_cells ex_twins (ex_preds ex_twins) (ex_alns ex_twins) = [ns ''c1'', ns ''c2'']"
    by code_simp
  have a: "g_value ex_twins (ns ''c1'') (dict_get (ex_preds ex_twins) ''entity1'') = Some (URIRef ''http://a/x'')"
    "g_value ex_twins (ns ''c1'') (dict_get (ex_preds ex_twins) ''entity2'') = Some (URIRef ''http://b/y'')"
    "g_value ex_twins (ns ''c1'') (dict_get (ex_preds ex_twins) ''cid'') = None"
    "g_value ex_twins (ns ''c1'') (dict_get (ex_preds ex_twins) ''measure'') = Some (Literal ''0.95'' None None)"
    "g_value ex_twins (ns ''c1'') (dict_get (ex_preds ex_twins) ''relation'') = Some (Literal ''='' None None)"
    by code_simp+
  have b: "g_value ex_twins (ns ''c2'') (dict_get (ex_preds ex_twins) ''entity1'') = Some (URIRef ''http://a/x'')"
    "g_value ex_twins (ns ''c2'') (dict_get (ex_preds ex_twins) ''entity2'') = Some (URIRef ''http://b/y'')"
    "g_value ex_twins (ns ''c2'') (dict_get (ex_preds ex_twins) ''cid'') = None"
    "g_value ex_twins (ns ''c2'') (dict_get (ex_preds ex_twins) ''measure'') = Some (Literal ''0.5'' None None)"
    "g_value ex_twins (ns ''c2'') (dict_get (ex_preds ex_twins) ''relation'') = Some (Literal ''<'' None None)"
    by code_simp+
  show ?thesis
    unfolding emitted_def v
    by (simp add: List.map_filter_def cell_emit_complete [OF a(1,2)] cell_emit_complete [OF b(1,2)]
        a b cid_str_of_def)
qed

text \<open>
  C4. The two cells of \<open>ex_twins\<close> are complete, and the graph that the conversion builds
  and hands to the serialiser, which is the graph written when the serialiser accepts it,
  holds one resource typed \<open>sssom:Mapping\<close>, not two.
\<close>

theorem twins_yield_one_mapping:
  "length (complete_cells ex_twins (ex_preds ex_twins) (ex_alns ex_twins)) = 2
   \<and> convert_graph rt ''f.ttl'' out ex_twins w =
       (if can_serialize rt out
             (link_mapping_set ex_iri (run_loops rt ex_twins (ex_preds ex_twins) ex_iri (ex_alns ex_twins)))
        then (None, print_msg (WroteOK out) (w\<lparr>written := written w @ [(out,
               link_mapping_set ex_iri
                 (run_loops rt ex_twins (ex_preds ex_twins) ex_iri (ex_alns ex_twins)))]\<rparr>))
        else (Some SerializeError, w))
   \<and> length (mapping_resources
        (link_mapping_set ex_iri (run_loops rt ex_twins (ex_preds ex_twins) ex_iri (ex_alns ex_twins))))
       = 1"
proof -
  have c: "length (complete_cells ex_twins (ex_preds ex_twins) (ex_alns ex_twins)) = 2"
    by code_simp
  have "unresolved_roles (discover ex_twins) = []"
    by code_simp
  then have "filter (\<lambda>k. dict_get (find_predicates_and_classes ex_twins) k = None) required_keys = []"
    by (simp add: missing_unresolved)
  then have w: "convert_graph rt ''f.ttl'' out ex_twins w =
       (if can_serialize rt out
             (link_mapping_set ex_iri (run_loops rt ex_twins (ex_preds ex_twins) ex_iri (ex_alns ex_twins)))
        then (None, print_msg (WroteOK out) (w\<lparr>written := written w @ [(out,
               link_mapping_set ex_iri
                 (run_loops rt ex_twins (ex_preds ex_twins) ex_iri (ex_alns ex_twins)))]\<rparr>))
        else (Some SerializeError, w))"
    by (simp only: convert_graph_write output_graph_def ex_iri_def ex_preds_def ex_alns_def)
  have "length (mapping_resources
        (link_mapping_set ex_iri (run_loops rt ex_twins (ex_preds ex_twins) ex_iri (ex_alns ex_twins))))
       = 1"
    by (simp add: length_mapping_resources run_loops_nodes twins_emitted)
  with c w show ?thesis by simp
qed

text \<open>
  C7. Neither cell of \<open>ex_twins\<close> has a cid, the two cells are distinct, and the mapping
  IRIs generated for them are equal.
\<close>

theorem twins_share_mapping_iri:
  "ns ''c1'' \<noteq> ns ''c2''
   \<and> g_value ex_twins (ns ''c1'') (dict_get (ex_preds ex_twins) ''cid'') = None
   \<and> g_value ex_twins (ns ''c2'') (dict_get (ex_preds ex_twins) ''cid'') = None
   \<and> all_mapping_nodes (run_loops rt ex_twins (ex_preds ex_twins) msi (ex_alns ex_twins)) =
       [URIRef (msi @ ''#m'' @ str_int \<bar>py_hash rt (URIRef ''http://a/x'', URIRef ''http://b/y'')\<bar>),
        URIRef (msi @ ''#m'' @ str_int \<bar>py_hash rt (URIRef ''http://a/x'', URIRef ''http://b/y'')\<bar>)]
   \<and> \<not> distinct (all_mapping_nodes (run_loops rt ex_twins (ex_preds ex_twins) msi (ex_alns ex_twins)))"
proof -
  have "ns ''c1'' \<noteq> ns ''c2''"
    and "g_value ex_twins (ns ''c1'') (dict_get (ex_preds ex_twins) ''cid'') = None"
    and "g_value ex_twins (ns ''c2'') (dict_get (ex_preds ex_twins) ''cid'') = None"
    by code_simp+
  then show ?thesis
    by (simp add: run_loops_nodes twins_emitted mapping_node_of_def)
qed

section \<open>The Cell class is never consulted\<close>

text \<open>
  C10. Two input graphs that differ only in typing triples of cells (\<open>rdf:type\<close> triples
  whose object has a local name ending in \<open>Cell\<close>) are converted to the same result: the
  same graph handed to the serialiser and written, the same exception if any, the same
  console lines. The mapping nodes are those of all the
  objects of the map predicate of the alignments, filtered only by \<open>cell_emit\<close>, which
  reads no \<open>rdf:type\<close> triple.
\<close>

theorem cell_typing_noninterference:
  assumes "without_cell_typing g1 = without_cell_typing g2"
  shows "convert_graph rt nm out g1 w = convert_graph rt nm out g2 w
     \<and> all_mapping_nodes (run_loops rt g1 preds msi alns) =
         map fst (List.map_filter (cell_emit rt g1 preds msi)
           (concat (map (\<lambda>aln. g_objects g1 (Some aln) (dict_get preds ''map'')) alns)))"
  using assms convert_graph_without_cell_typing [of rt nm out g1 w]
    convert_graph_without_cell_typing [of rt nm out g2 w]
  by (simp add: run_loops_nodes emitted_def visited_cells_def)

theorem cell_typing_noninterference_witness:
  "ex_typed \<noteq> ex_one
   \<and> cell_class (discover ex_typed) \<noteq> cell_class (discover ex_one)
   \<and> convert_graph sample_rt ''f.ttl'' ''out/f_sssom.ttl'' ex_typed empty_world =
     convert_graph sample_rt ''f.ttl'' ''out/f_sssom.ttl'' ex_one empty_world"
proof -
  have h: "without_cell_typing ex_typed = without_cell_typing ex_one"
    by code_simp
  have d: "ex_typed \<noteq> ex_one" "cell_class (discover ex_typed) \<noteq> cell_class (discover ex_one)"
    by code_simp+
  show ?thesis
    using cell_typing_noninterference [OF h, of sample_rt "''f.ttl''" "''out/f_sssom.ttl''" empty_world] d
    by simp
qed

end
